theory Spec2Isabelle
  imports Main "HOL-Library.Word"
begin

unbundle bit_operations_syntax

section \<open>Machine types\<close>

type_synonym u8 = "8 word"
type_synonym u16 = "16 word"
type_synonym u32 = "32 word"
type_synonym u64 = "64 word"

section \<open>Segment descriptors (x86hvf.c, lines 39-73)\<close>

text \<open>
  Modelled from the spec: the two descriptor structures and the \<open>DESC_*_SHIFT\<close> macros
  are declared in \<open>cpu.h\<close> and \<open>x86_descr.h\<close>, which are not among the sources. The spec
  names the fields (selector, base, limit, access-rights flags) and says that the flag
  fields sit at "fixed bit positions"; the positions below are the ones of the second
  word of an x86 segment descriptor (type 8-11, S 12, DPL 13-14, P 15, AVL 20, L 21,
  B 22, G 23). The guest form \<open>SegmentCache\<close> keeps selector, limit and flags in 32 bits
  and the base in 64 bits; the host form \<open>vmx_segment\<close> keeps the selector in 16 bits and
  base, limit and access rights in 64 bits.
\<close>

record SegmentCache =
  selector :: u32
  base :: u64
  limit :: u32
  flags :: u32

record vmx_segment =
  sel :: u16
  vbase :: u64
  vlimit :: u64
  ar :: u64

definition DESC_TYPE_SHIFT :: nat where "DESC_TYPE_SHIFT = 8"
definition DESC_S_SHIFT :: nat where "DESC_S_SHIFT = 12"
definition DESC_DPL_SHIFT :: nat where "DESC_DPL_SHIFT = 13"
definition DESC_P_SHIFT :: nat where "DESC_P_SHIFT = 15"
definition DESC_AVL_SHIFT :: nat where "DESC_AVL_SHIFT = 20"
definition DESC_L_SHIFT :: nat where "DESC_L_SHIFT = 21"
definition DESC_B_SHIFT :: nat where "DESC_B_SHIFT = 22"
definition DESC_G_SHIFT :: nat where "DESC_G_SHIFT = 23"

text \<open>
  Lines 50-57: the access rights packed from the flags. The arithmetic is done on the
  32-bit flags and the result widened to the 64-bit \<open>ar\<close> field.
\<close>

definition pack_ar :: "u32 \<Rightarrow> u64" where
  "pack_ar f = ucast
     ((drop_bit DESC_TYPE_SHIFT f AND 0xf)
      OR push_bit 15 (drop_bit DESC_G_SHIFT f AND 1)
      OR push_bit 14 (drop_bit DESC_B_SHIFT f AND 1)
      OR push_bit 13 (drop_bit DESC_L_SHIFT f AND 1)
      OR push_bit 12 (drop_bit DESC_AVL_SHIFT f AND 1)
      OR push_bit 7 (drop_bit DESC_P_SHIFT f AND 1)
      OR push_bit 5 (drop_bit DESC_DPL_SHIFT f AND 3)
      OR push_bit 4 (drop_bit DESC_S_SHIFT f AND 1))"

text \<open>
  \<open>hvf_set_segment\<close>. The first argument is the value of \<open>x86_is_real(cpu)\<close>, a helper
  of \<open>x86.h\<close> that is not among the sources. The early return of line 48 is the first
  branch.
\<close>

definition hvf_set_segment :: "bool \<Rightarrow> SegmentCache \<Rightarrow> bool \<Rightarrow> vmx_segment" where
  "hvf_set_segment is_real qseg is_tr =
     (let vmx_seg = \<lparr>sel = ucast (selector qseg), vbase = base qseg,
                     vlimit = ucast (limit qseg), ar = 0\<rparr>
      in if selector qseg = 0 \<and> \<not> is_real \<and> \<not> is_tr
         then vmx_seg\<lparr>ar := push_bit 16 1\<rparr>
         else vmx_seg\<lparr>ar := pack_ar (flags qseg)\<rparr>)"

text \<open>
  Lines 65-72: the flags unpacked from the access rights, computed in 64 bits and
  stored in the 32-bit flags field.
\<close>

definition unpack_flags :: "u64 \<Rightarrow> u32" where
  "unpack_flags a = ucast
     (push_bit DESC_TYPE_SHIFT (a AND 0xf)
      OR push_bit DESC_S_SHIFT (drop_bit 4 a AND 1)
      OR push_bit DESC_DPL_SHIFT (drop_bit 5 a AND 3)
      OR push_bit DESC_P_SHIFT (drop_bit 7 a AND 1)
      OR push_bit DESC_AVL_SHIFT (drop_bit 12 a AND 1)
      OR push_bit DESC_L_SHIFT (drop_bit 13 a AND 1)
      OR push_bit DESC_B_SHIFT (drop_bit 14 a AND 1)
      OR push_bit DESC_G_SHIFT (drop_bit 15 a AND 1))"

definition hvf_get_segment :: "vmx_segment \<Rightarrow> SegmentCache" where
  "hvf_get_segment vmx_seg =
     \<lparr>selector = ucast (sel vmx_seg),
      base = vbase vmx_seg,
      limit = ucast (vlimit vmx_seg),
      flags = unpack_flags (ar vmx_seg)\<rparr>"

text \<open>
  The packing as the table of the spec's design notes has it, (bit position, width,
  field): bit \<open>n\<close> of the access rights is which bit of the flags. Type is bits 0-3,
  S bit 4, DPL bits 5-6, P bit 7, AVL bit 12, L bit 13, B bit 14, G bit 15; every other
  bit is zero.
\<close>

definition ar_field_bit :: "u32 \<Rightarrow> nat \<Rightarrow> bool" where
  "ar_field_bit f n \<longleftrightarrow>
     (n < 4 \<and> bit f (8 + n)) \<or> (n = 4 \<and> bit f 12) \<or> (n = 5 \<and> bit f 13) \<or> (n = 6 \<and> bit f 14)
     \<or> (n = 7 \<and> bit f 15) \<or> (n = 12 \<and> bit f 20) \<or> (n = 13 \<and> bit f 21)
     \<or> (n = 14 \<and> bit f 22) \<or> (n = 15 \<and> bit f 23)"

section \<open>Guest and host state\<close>

text \<open>
  The host virtual CPU behind \<open>cpu_state->hvf_fd\<close>: its register file, the fields of
  its control structure, its model-specific registers, its extended-state area (4096
  bytes, kept as 32-bit words like \<open>hvf_xsave_buf.data\<close>) and the time-stamp counter
  set by \<open>hv_vm_sync_tsc\<close>. Registers, fields and MSRs are named as in the source; their
  numeric encodings are in headers that are not among the sources and play no role.
\<close>

datatype hv_x86_reg =
    HV_X86_RAX | HV_X86_RBX | HV_X86_RCX | HV_X86_RDX | HV_X86_RBP | HV_X86_RSP
  | HV_X86_RSI | HV_X86_RDI | HV_X86_R8 | HV_X86_R9 | HV_X86_R10 | HV_X86_R11
  | HV_X86_R12 | HV_X86_R13 | HV_X86_R14 | HV_X86_R15 | HV_X86_RFLAGS | HV_X86_RIP
  | HV_X86_XCR0 | HV_X86_DR0 | HV_X86_DR1 | HV_X86_DR2 | HV_X86_DR3 | HV_X86_DR4
  | HV_X86_DR5 | HV_X86_DR6 | HV_X86_DR7

datatype vmcs_field =
    VMCS_GUEST_INTERRUPTIBILITY | VMCS_IDT_VECTORING_INFO | VMCS_IDT_VECTORING_ERROR
  | VMCS_EXIT_REASON | VMCS_EXIT_INSTRUCTION_LENGTH | VMCS_ENTRY_INST_LENGTH
  | VMCS_ENTRY_EXCEPTION_ERROR | VMCS_ENTRY_INTR_INFO | VMCS_PRI_PROC_BASED_CTLS
  | VMCS_GUEST_IDTR_LIMIT | VMCS_GUEST_IDTR_BASE | VMCS_GUEST_GDTR_LIMIT
  | VMCS_GUEST_GDTR_BASE | VMCS_GUEST_CR0 | VMCS_GUEST_CR2 | VMCS_GUEST_CR3
  | VMCS_GUEST_CR4 | VMCS_GUEST_IA32_EFER | VMCS_TSC_OFFSET

datatype msr =
    MSR_IA32_SYSENTER_CS | MSR_IA32_SYSENTER_ESP | MSR_IA32_SYSENTER_EIP | MSR_STAR
  | MSR_CSTAR | MSR_KERNELGSBASE | MSR_FMASK | MSR_LSTAR | MSR_GSBASE | MSR_FSBASE
  | MSR_IA32_APICBASE

record hv_vcpu =
  hv_reg :: "hv_x86_reg \<Rightarrow> u64"
  hv_vmcs :: "vmcs_field \<Rightarrow> u64"
  hv_msr :: "msr \<Rightarrow> u64"
  hv_fpstate :: "nat \<Rightarrow> u32"
  hv_tsc :: u64

datatype x86_seg = R_ES | R_CS | R_SS | R_DS | R_FS | R_GS

text \<open>
  Modelled from the spec: \<open>CPUX86State\<close> and \<open>CPUState\<close> are declared in \<open>cpu.h\<close> and
  \<open>qom/cpu.h\<close>, which are not among the sources; the records keep the fields that
  \<open>x86hvf.c\<close> reads and writes (the spec's GuestCpuState: "general/segment/control/debug
  registers, the extended-state region, MSRs, and an interrupt-request bit set"), with
  the widths of a 64-bit target. A register bank of the extended state is kept as the
  list of its 32-bit words, so that \<open>sizeof\<close> of the bank is the length of the list.
\<close>

record CPUX86State =
  regs :: "nat \<Rightarrow> u64"
  eip :: u64
  eflags :: u64
  xcr0 :: u64
  dr :: "nat \<Rightarrow> u64"
  cr :: "nat \<Rightarrow> u64"
  efer :: u64
  segs :: "x86_seg \<Rightarrow> SegmentCache"
  ldt :: SegmentCache
  tr :: SegmentCache
  gdt :: SegmentCache
  idt :: SegmentCache
  sysenter_cs :: u32
  sysenter_esp :: u64
  sysenter_eip :: u64
  star :: u64
  cstar :: u64
  kernelgsbase :: u64
  fmask :: u64
  lstar :: u64
  tsc :: u64
  interrupt_injected :: u32
  tpr_access_type :: u8
  fpstt :: u32
  fpus :: u16
  fpuc :: u16
  fptags :: "nat \<Rightarrow> u8"
  fpop :: u16
  fpip :: u64
  fpdp :: u64
  fpregs :: "u32 list"
  mxcsr :: u32
  xmm_regs :: "u32 list"
  ymmh_regs :: "u32 list"
  zmmh_regs :: "u32 list"
  hi16_zmm_regs :: "u32 list"
  opmask_regs :: "u32 list"
  bnd_regs :: "u32 list"
  bndcs_regs :: "u32 list"
  xstate_bv :: u64
  kvm_xsave_buf :: "nat \<Rightarrow> u32"

text \<open>
  \<open>hvf_interruptable\<close> is \<open>cpu_state->hvf_x86->interruptable\<close> and \<open>hvf_EFLAGS\<close> is the
  lvalue \<open>EFLAGS(cpu_state)\<close>, the low 32 bits of the emulator's copy of RFLAGS.
\<close>

record CPUState =
  hvf_fd :: hv_vcpu
  interrupt_request :: u32
  halted :: u32
  hvf_interruptable :: bool
  hvf_EFLAGS :: u32
  env :: CPUX86State

text \<open>
  Modelled from the spec: \<open>rreg\<close>, \<open>wreg\<close>, \<open>rvmcs\<close> and \<open>wvmcs\<close> are wrappers of
  \<open>vmx.h\<close>, which is not among the sources ("per-register read/write by register
  identifier; control-structure field read/write by field identifier"). They are the
  reads and updates of the host's store; what the wrappers do when the host call fails
  is not visible in the sources and is not modelled.
\<close>

definition rreg :: "CPUState \<Rightarrow> hv_x86_reg \<Rightarrow> u64" where
  "rreg s r = hv_reg (hvf_fd s) r"

definition wreg :: "CPUState \<Rightarrow> hv_x86_reg \<Rightarrow> u64 \<Rightarrow> CPUState" where
  "wreg s r v = s\<lparr>hvf_fd := (hvf_fd s)\<lparr>hv_reg := (hv_reg (hvf_fd s))(r := v)\<rparr>\<rparr>"

definition rvmcs :: "CPUState \<Rightarrow> vmcs_field \<Rightarrow> u64" where
  "rvmcs s f = hv_vmcs (hvf_fd s) f"

definition wvmcs :: "CPUState \<Rightarrow> vmcs_field \<Rightarrow> u64 \<Rightarrow> CPUState" where
  "wvmcs s f v = s\<lparr>hvf_fd := (hvf_fd s)\<lparr>hv_vmcs := (hv_vmcs (hvf_fd s))(f := v)\<rparr>\<rparr>"

section \<open>Constants of the injector\<close>

text \<open>
  Modelled from the spec: the macros below are declared in \<open>vmcs.h\<close>, \<open>vmx.h\<close>, \<open>x86.h\<close>
  and \<open>cpu.h\<close>, which are not among the sources. The spec calls them an "externally
  fixed hardware ABI": the values are the ones of the Intel virtualization architecture
  (valid bit 31, type field bits 8-10, error-code bit 11, NMI blocking bit 3 of the
  interruptibility state, interrupt-window exiting bit 2 and NMI-window exiting bit 22
  of the primary processor-based controls, exit reason 9 for a task switch, vectors 3
  and 4 for breakpoint and overflow, EFLAGS.IF bit 9) and of QEMU's request bits.
\<close>

definition CPU_INTERRUPT_HARD :: u32 where "CPU_INTERRUPT_HARD = 0x0002"
definition CPU_INTERRUPT_NMI :: u32 where "CPU_INTERRUPT_NMI = 0x0200"
definition IF_MASK :: u32 where "IF_MASK = 0x200"

definition VMCS_INTERRUPTIBILITY_NMI_BLOCKING :: u64 where
  "VMCS_INTERRUPTIBILITY_NMI_BLOCKING = push_bit 3 1"
definition VMCS_IDT_VEC_VALID :: u64 where "VMCS_IDT_VEC_VALID = push_bit 31 1"
definition VMCS_INTR_VALID :: u64 where "VMCS_INTR_VALID = push_bit 31 1"
definition VMCS_INTR_DEL_ERRCODE :: u64 where "VMCS_INTR_DEL_ERRCODE = push_bit 11 1"
definition VMCS_INTR_T_MASK :: u64 where "VMCS_INTR_T_MASK = 0x700"
definition VMCS_INTR_T_HWINTR :: u64 where "VMCS_INTR_T_HWINTR = push_bit 8 0"
definition VMCS_INTR_T_NMI :: u64 where "VMCS_INTR_T_NMI = push_bit 8 2"
definition VMCS_INTR_T_HWEXCEPTION :: u64 where "VMCS_INTR_T_HWEXCEPTION = push_bit 8 3"
definition VMCS_INTR_T_SWINTR :: u64 where "VMCS_INTR_T_SWINTR = push_bit 8 4"
definition VMCS_INTR_T_PRIV_SWEXCEPTION :: u64 where
  "VMCS_INTR_T_PRIV_SWEXCEPTION = push_bit 8 5"
definition VMCS_INTR_T_SWEXCEPTION :: u64 where "VMCS_INTR_T_SWEXCEPTION = push_bit 8 6"
definition VMCS_PRI_PROC_BASED_CTLS_INT_WINDOW_EXITING :: u64 where
  "VMCS_PRI_PROC_BASED_CTLS_INT_WINDOW_EXITING = push_bit 2 1"
definition VMCS_PRI_PROC_BASED_CTLS_NMI_WINDOW_EXITING :: u64 where
  "VMCS_PRI_PROC_BASED_CTLS_NMI_WINDOW_EXITING = push_bit 22 1"
definition EXIT_REASON_TASK_SWITCH :: u64 where "EXIT_REASON_TASK_SWITCH = 9"
definition EXCEPTION_BP :: u8 where "EXCEPTION_BP = 3"
definition EXCEPTION_OF :: u8 where "EXCEPTION_OF = 4"
definition NMI_VEC :: u64 where "NMI_VEC = 2"

section \<open>The interrupt injector (x86hvf.c, lines 383-466)\<close>

definition vmx_set_int_window_exiting :: "CPUState \<Rightarrow> CPUState" where
  "vmx_set_int_window_exiting cpu =
     (let val = rvmcs cpu VMCS_PRI_PROC_BASED_CTLS
      in wvmcs cpu VMCS_PRI_PROC_BASED_CTLS
           (val OR VMCS_PRI_PROC_BASED_CTLS_INT_WINDOW_EXITING))"

definition vmx_clear_int_window_exiting :: "CPUState \<Rightarrow> CPUState" where
  "vmx_clear_int_window_exiting cpu =
     (let val = rvmcs cpu VMCS_PRI_PROC_BASED_CTLS
      in wvmcs cpu VMCS_PRI_PROC_BASED_CTLS
           (val AND NOT VMCS_PRI_PROC_BASED_CTLS_INT_WINDOW_EXITING))"

text \<open>
  Modelled from the spec: \<open>vmx_clear_nmi_blocking\<close> and \<open>vmx_set_nmi_window_exiting\<close>
  are helpers of \<open>vmx.h\<close>, which is not among the sources. The spec has the first
  "clear NMI-blocking" in the interruptibility state and the second "arm an NMI-window
  exit (a control-field bit requesting the hypervisor to exit as soon as NMI delivery
  becomes legal)".
\<close>

definition vmx_clear_nmi_blocking :: "CPUState \<Rightarrow> CPUState" where
  "vmx_clear_nmi_blocking cpu =
     (let gi = rvmcs cpu VMCS_GUEST_INTERRUPTIBILITY
      in wvmcs cpu VMCS_GUEST_INTERRUPTIBILITY
           (gi AND NOT VMCS_INTERRUPTIBILITY_NMI_BLOCKING))"

definition vmx_set_nmi_window_exiting :: "CPUState \<Rightarrow> CPUState" where
  "vmx_set_nmi_window_exiting cpu =
     (let val = rvmcs cpu VMCS_PRI_PROC_BASED_CTLS
      in wvmcs cpu VMCS_PRI_PROC_BASED_CTLS
           (val OR VMCS_PRI_PROC_BASED_CTLS_NMI_WINDOW_EXITING))"

text \<open>
  Lines 402-445, the reinjection of the event of the vectoring-info field. The result
  is the local \<open>allow_nmi\<close>, the local \<open>info\<close> and the state.
\<close>

definition inject_reinjection :: "CPUState \<Rightarrow> bool \<times> u64 \<times> CPUState" where
  "inject_reinjection cpu_state =
     (let allow_nmi = (rvmcs cpu_state VMCS_GUEST_INTERRUPTIBILITY
                         AND VMCS_INTERRUPTIBILITY_NMI_BLOCKING = 0);
          idt_info = rvmcs cpu_state VMCS_IDT_VECTORING_INFO
      in if idt_info AND VMCS_IDT_VEC_VALID \<noteq> 0 then
           (let vector = (ucast (idt_info AND 0xff) :: u8);
                intr_type = idt_info AND VMCS_INTR_T_MASK;
                info = idt_info;
                reason = rvmcs cpu_state VMCS_EXIT_REASON;
                nmi_exit = (intr_type = VMCS_INTR_T_NMI \<and> reason \<noteq> EXIT_REASON_TASK_SWITCH);
                allow_nmi = (if nmi_exit then True else allow_nmi);
                s1 = (if nmi_exit then vmx_clear_nmi_blocking cpu_state else cpu_state)
            in if allow_nmi \<or> intr_type \<noteq> VMCS_INTR_T_NMI then
                 (let info = info AND NOT (push_bit 12 1);
                      s2 = (if intr_type = VMCS_INTR_T_SWINTR
                               \<or> intr_type = VMCS_INTR_T_PRIV_SWEXCEPTION
                               \<or> intr_type = VMCS_INTR_T_SWEXCEPTION
                            then wvmcs s1 VMCS_ENTRY_INST_LENGTH
                                   (rvmcs s1 VMCS_EXIT_INSTRUCTION_LENGTH)
                            else s1);
                      bp_of = (vector = EXCEPTION_BP \<or> vector = EXCEPTION_OF);
                      info = (if bp_of
                              then (info AND NOT VMCS_INTR_T_MASK) OR VMCS_INTR_T_SWEXCEPTION
                              else info);
                      s3 = (if bp_of
                            then wvmcs s2 VMCS_ENTRY_INST_LENGTH
                                   (rvmcs s2 VMCS_EXIT_INSTRUCTION_LENGTH)
                            else s2);
                      s4 = (if idt_info AND VMCS_INTR_DEL_ERRCODE \<noteq> 0
                            then wvmcs s3 VMCS_ENTRY_EXCEPTION_ERROR
                                   (rvmcs s3 VMCS_IDT_VECTORING_ERROR)
                            else s3)
                  in (allow_nmi, info, wvmcs s4 VMCS_ENTRY_INTR_INFO info))
               else (allow_nmi, info, s1))
         else (allow_nmi, 0, cpu_state))"

text \<open>Lines 447-455, the non-maskable interrupt. The result is \<open>info\<close> and the state.\<close>

definition inject_nmi :: "bool \<Rightarrow> u64 \<Rightarrow> CPUState \<Rightarrow> u64 \<times> CPUState" where
  "inject_nmi allow_nmi info cpu_state =
     (if interrupt_request cpu_state AND CPU_INTERRUPT_NMI \<noteq> 0 then
        (if allow_nmi \<and> info AND VMCS_INTR_VALID = 0 then
           (let s1 = cpu_state\<lparr>interrupt_request :=
                       interrupt_request cpu_state AND NOT CPU_INTERRUPT_NMI\<rparr>;
                info = VMCS_INTR_VALID OR VMCS_INTR_T_NMI OR NMI_VEC
            in (info, wvmcs s1 VMCS_ENTRY_INTR_INFO info))
         else (info, vmx_set_nmi_window_exiting cpu_state))
      else (info, cpu_state))"

text \<open>
  Lines 457-465, the hardware interrupt. \<open>line\<close> is the value that
  \<open>cpu_get_pic_interrupt\<close> returns, a C \<open>int\<close>; the interrupt controller is not among
  the sources, and what it does to its own state is not part of the model (the request
  bit is cleared after the call, in line 460, whatever the controller did to it). In
  line 462 \<open>line\<close> is converted to \<open>unsigned\<close> by the OR with the unsigned valid bit
  and widened to the 64 bits of the field.
\<close>

definition inject_hard :: "u32 \<Rightarrow> u64 \<Rightarrow> CPUState \<Rightarrow> CPUState" where
  "inject_hard line info cpu_state =
     (let s1 = (if hvf_interruptable cpu_state
                   \<and> interrupt_request cpu_state AND CPU_INTERRUPT_HARD \<noteq> 0
                   \<and> hvf_EFLAGS cpu_state AND IF_MASK \<noteq> 0
                   \<and> info AND VMCS_INTR_VALID = 0
                then (let s = cpu_state\<lparr>interrupt_request :=
                                interrupt_request cpu_state AND NOT CPU_INTERRUPT_HARD\<rparr>
                      in if 0 \<le> sint line
                         then wvmcs s VMCS_ENTRY_INTR_INFO
                                (ucast (line OR ucast VMCS_INTR_VALID OR ucast VMCS_INTR_T_HWINTR))
                         else s)
                else cpu_state)
      in if interrupt_request s1 AND CPU_INTERRUPT_HARD \<noteq> 0
         then vmx_set_int_window_exiting s1
         else s1)"

definition hvf_inject_interrupts :: "u32 \<Rightarrow> CPUState \<Rightarrow> CPUState" where
  "hvf_inject_interrupts line cpu_state =
     (case inject_reinjection cpu_state of
        (allow_nmi, info, s1) \<Rightarrow>
          (case inject_nmi allow_nmi info s1 of
             (info', s2) \<Rightarrow> inject_hard line info' s2))"

section \<open>The event processor (x86hvf.c, lines 468-499)\<close>





section \<open>Example states\<close>

text \<open>
  A guest model and a host virtual CPU with every register, field and bank at zero, the
  banks with the lengths of the extended-state layout; the examples below are updates
  of it.
\<close>

definition zero_seg :: SegmentCache where
  "zero_seg = \<lparr>selector = 0, base = 0, limit = 0, flags = 0\<rparr>"

definition zero_env :: CPUX86State where
  "zero_env = \<lparr>regs = (\<lambda>_. 0), eip = 0, eflags = 0, xcr0 = 0, dr = (\<lambda>_. 0), cr = (\<lambda>_. 0),
     efer = 0, segs = (\<lambda>_. zero_seg), ldt = zero_seg, tr = zero_seg, gdt = zero_seg,
     idt = zero_seg, sysenter_cs = 0, sysenter_esp = 0, sysenter_eip = 0, star = 0,
     cstar = 0, kernelgsbase = 0, fmask = 0, lstar = 0, tsc = 0, interrupt_injected = 0,
     tpr_access_type = 0, fpstt = 0, fpus = 0, fpuc = 0, fptags = (\<lambda>_. 0), fpop = 0,
     fpip = 0, fpdp = 0, fpregs = replicate 32 0, mxcsr = 0, xmm_regs = replicate 64 0,
     ymmh_regs = replicate 64 0, zmmh_regs = replicate 128 0,
     hi16_zmm_regs = replicate 256 0, opmask_regs = replicate 16 0,
     bnd_regs = replicate 16 0, bndcs_regs = replicate 4 0, xstate_bv = 0,
     kvm_xsave_buf = (\<lambda>_. 0)\<rparr>"

definition zero_vcpu :: hv_vcpu where
  "zero_vcpu = \<lparr>hv_reg = (\<lambda>_. 0), hv_vmcs = (\<lambda>_. 0), hv_msr = (\<lambda>_. 0),
     hv_fpstate = (\<lambda>_. 0), hv_tsc = 0\<rparr>"

definition zero_cpu :: CPUState where
  "zero_cpu = \<lparr>hvf_fd = zero_vcpu, interrupt_request = 0, halted = 0,
     hvf_interruptable = True, hvf_EFLAGS = 0, env = zero_env\<rparr>"


section \<open>The extended-state codec (x86hvf.c, lines 75-110 and 185-220)\<close>

text \<open>
  \<open>memcpy\<close> between the buffer, addressed in 32-bit words as \<open>xsave->data\<close> is, and a
  register bank. \<open>memcpy_to d off xs\<close> is \<open>memcpy(&data[off], &bank, sizeof(bank))\<close>,
  \<open>memcpy_from d off n\<close> reads \<open>n\<close> words back. A 64-bit field is two words, the low
  one first (the host is little-endian).
\<close>

fun memcpy_to :: "(nat \<Rightarrow> u32) \<Rightarrow> nat \<Rightarrow> u32 list \<Rightarrow> (nat \<Rightarrow> u32)" where
  "memcpy_to d off [] = d"
| "memcpy_to d off (x # xs) = memcpy_to (d(off := x)) (Suc off) xs"

definition memcpy_from :: "(nat \<Rightarrow> u32) \<Rightarrow> nat \<Rightarrow> nat \<Rightarrow> u32 list" where
  "memcpy_from d off n = map (\<lambda>i. d (off + i)) [0..<n]"

definition words_of_u64 :: "u64 \<Rightarrow> u32 list" where
  "words_of_u64 v = [ucast v, ucast (drop_bit 32 v)]"

definition u64_of_words :: "(nat \<Rightarrow> u32) \<Rightarrow> nat \<Rightarrow> u64" where
  "u64_of_words d off = ucast (d off) OR push_bit 32 (ucast (d (Suc off)))"

text \<open>
  Lines 82-105: the buffer that \<open>hvf_put_xsave\<close> builds, in the order of the source.
  The buffer has the words 0 to 1023.
\<close>

definition xsave_pack :: "CPUX86State \<Rightarrow> (nat \<Rightarrow> u32)" where
  "xsave_pack e =
     (let d = (\<lambda>_. 0);
          d = memcpy_to d 4 (words_of_u64 (fpdp e));
          d = memcpy_to d 2 (words_of_u64 (fpip e));
          d = memcpy_to d 8 (fpregs e);
          d = memcpy_to d 144 (ymmh_regs e);
          d = memcpy_to d 288 (zmmh_regs e);
          d = memcpy_to d 272 (opmask_regs e);
          d = memcpy_to d 240 (bnd_regs e);
          d = memcpy_to d 256 (bndcs_regs e);
          d = memcpy_to d 416 (hi16_zmm_regs e);
          d = d(0 := ucast (fpuc e));
          d = d(0 := d 0 OR push_bit 16 (ucast (fpus e)));
          d = d(0 := d 0 OR push_bit 11 (fpstt e AND 7));
          d = fold (\<lambda>x d. d(1 := d 1 OR push_bit x (if fptags e x = 0 then 1 else 0))) [0..<8] d;
          d = d(1 := d 1 OR push_bit 16 (ucast (fpop e)));
          d = memcpy_to d 40 (xmm_regs e);
          d = d(6 := mxcsr e)
      in memcpy_to d 128 (words_of_u64 (xstate_bv e)))"

text \<open>Lines 196-219: the guest fields that \<open>hvf_get_xsave\<close> reads from the buffer.\<close>

definition xsave_unpack :: "(nat \<Rightarrow> u32) \<Rightarrow> CPUX86State \<Rightarrow> CPUX86State" where
  "xsave_unpack d e =
     (let e = e\<lparr>fpdp := u64_of_words d 4\<rparr>;
          e = e\<lparr>fpip := u64_of_words d 2\<rparr>;
          e = e\<lparr>fpregs := memcpy_from d 8 (length (fpregs e))\<rparr>;
          e = e\<lparr>ymmh_regs := memcpy_from d 144 (length (ymmh_regs e))\<rparr>;
          e = e\<lparr>zmmh_regs := memcpy_from d 288 (length (zmmh_regs e))\<rparr>;
          e = e\<lparr>opmask_regs := memcpy_from d 272 (length (opmask_regs e))\<rparr>;
          e = e\<lparr>bnd_regs := memcpy_from d 240 (length (bnd_regs e))\<rparr>;
          e = e\<lparr>bndcs_regs := memcpy_from d 256 (length (bndcs_regs e))\<rparr>;
          e = e\<lparr>hi16_zmm_regs := memcpy_from d 416 (length (hi16_zmm_regs e))\<rparr>;
          e = e\<lparr>fpuc := ucast (d 0)\<rparr>;
          e = e\<lparr>fpus := ucast (drop_bit 16 (d 0))\<rparr>;
          e = e\<lparr>fpstt := ucast (drop_bit 11 (fpus e)) AND 7\<rparr>;
          e = e\<lparr>fpop := ucast (drop_bit 16 (d 1))\<rparr>;
          e = fold (\<lambda>x e. e\<lparr>fptags := (fptags e)
                 (x := if drop_bit x (ucast (d 1) :: u16) AND 1 = 0 then 1 else 0)\<rparr>) [0..<8] e;
          e = e\<lparr>xmm_regs := memcpy_from d 40 (length (xmm_regs e))\<rparr>;
          e = e\<lparr>mxcsr := d 6\<rparr>
      in e\<lparr>xstate_bv := u64_of_words d 128\<rparr>)"

text \<open>
  The calls of the host interface that \<open>x86hvf.c\<close> makes itself. The host decides
  whether a call succeeds: \<open>hv\<close> gives the \<open>hv_return_t\<close> of each call, 0 for success.
  A call that fails leaves the host, or the destination of a read, as it was.
\<close>

datatype hv_call =
    Hv_vcpu_write_fpstate | Hv_vcpu_read_fpstate | Hv_vcpu_write_msr msr
  | Hv_vcpu_read_msr msr | Hv_vcpu_flush | Hv_vm_sync_tsc

type_synonym hv_returns = "hv_call \<Rightarrow> u32"

definition hv_vcpu_write_fpstate :: "hv_returns \<Rightarrow> CPUState \<Rightarrow> (nat \<Rightarrow> u32) \<Rightarrow> u32 \<times> CPUState" where
  "hv_vcpu_write_fpstate hv s buf =
     (hv Hv_vcpu_write_fpstate,
      if hv Hv_vcpu_write_fpstate = 0 then s\<lparr>hvf_fd := (hvf_fd s)\<lparr>hv_fpstate := buf\<rparr>\<rparr> else s)"

definition hv_vcpu_read_fpstate :: "hv_returns \<Rightarrow> CPUState \<Rightarrow> (nat \<Rightarrow> u32) \<Rightarrow> u32 \<times> (nat \<Rightarrow> u32)" where
  "hv_vcpu_read_fpstate hv s buf =
     (hv Hv_vcpu_read_fpstate,
      if hv Hv_vcpu_read_fpstate = 0 then hv_fpstate (hvf_fd s) else buf)"

definition hv_vcpu_write_msr :: "hv_returns \<Rightarrow> CPUState \<Rightarrow> msr \<Rightarrow> u64 \<Rightarrow> u32 \<times> CPUState" where
  "hv_vcpu_write_msr hv s m v =
     (hv (Hv_vcpu_write_msr m),
      if hv (Hv_vcpu_write_msr m) = 0
      then s\<lparr>hvf_fd := (hvf_fd s)\<lparr>hv_msr := (hv_msr (hvf_fd s))(m := v)\<rparr>\<rparr> else s)"

definition hv_vcpu_read_msr :: "hv_returns \<Rightarrow> CPUState \<Rightarrow> msr \<Rightarrow> u64 \<Rightarrow> u32 \<times> u64" where
  "hv_vcpu_read_msr hv s m old =
     (hv (Hv_vcpu_read_msr m),
      if hv (Hv_vcpu_read_msr m) = 0 then hv_msr (hvf_fd s) m else old)"

definition hv_vcpu_flush :: "hv_returns \<Rightarrow> CPUState \<Rightarrow> u32 \<times> CPUState" where
  "hv_vcpu_flush hv s = (hv Hv_vcpu_flush, s)"

definition hv_vm_sync_tsc :: "hv_returns \<Rightarrow> CPUState \<Rightarrow> u64 \<Rightarrow> u32 \<times> CPUState" where
  "hv_vm_sync_tsc hv s v =
     (hv Hv_vm_sync_tsc,
      if hv Hv_vm_sync_tsc = 0 then s\<lparr>hvf_fd := (hvf_fd s)\<lparr>hv_tsc := v\<rparr>\<rparr> else s)"

text \<open>
  \<open>hvf_put_xsave\<close> and \<open>hvf_get_xsave\<close>. \<open>None\<close> is the \<open>abort()\<close> of lines 108 and
  193.
\<close>

definition hvf_put_xsave :: "hv_returns \<Rightarrow> CPUState \<Rightarrow> CPUState option" where
  "hvf_put_xsave hv cpu_state =
     (let xsave = xsave_pack (env cpu_state);
          s = cpu_state\<lparr>env := (env cpu_state)\<lparr>kvm_xsave_buf := xsave\<rparr>\<rparr>
      in case hv_vcpu_write_fpstate hv s xsave of
           (r, s') \<Rightarrow> if r \<noteq> 0 then None else Some s')"

definition hvf_get_xsave :: "hv_returns \<Rightarrow> CPUState \<Rightarrow> CPUState option" where
  "hvf_get_xsave hv cpu_state =
     (case hv_vcpu_read_fpstate hv cpu_state (kvm_xsave_buf (env cpu_state)) of
        (r, xsave) \<Rightarrow>
          if r \<noteq> 0 then None
          else Some (cpu_state\<lparr>env :=
                 xsave_unpack xsave ((env cpu_state)\<lparr>kvm_xsave_buf := xsave\<rparr>)\<rparr>))"

section \<open>Segments, control registers and MSRs (x86hvf.c, lines 113-293)\<close>

datatype x86_reg_segment =
    REG_SEG_ES | REG_SEG_CS | REG_SEG_SS | REG_SEG_DS | REG_SEG_FS | REG_SEG_GS
  | REG_SEG_LDTR | REG_SEG_TR

text \<open>
  The helpers of \<open>vmx.h\<close>, \<open>x86.h\<close> and \<open>x86_descr.h\<close> that the segment and MSR
  synchronization calls are not among the sources; each is a parameter. \<open>rdtscp\<close> is
  the host's cycle counter and \<open>tmp0\<close> the content of the uninitialised local \<open>tmp\<close> of
  \<open>hvf_get_msrs\<close>.
\<close>

record vmx_helpers =
  x86_is_real :: "CPUState \<Rightarrow> bool"
  vmx_update_tpr :: "CPUState \<Rightarrow> CPUState"
  macvm_set_cr4 :: "u64 \<Rightarrow> CPUState \<Rightarrow> CPUState"
  macvm_set_cr0 :: "u64 \<Rightarrow> CPUState \<Rightarrow> CPUState"
  vmx_write_segment_descriptor :: "vmx_segment \<Rightarrow> x86_reg_segment \<Rightarrow> CPUState \<Rightarrow> CPUState"
  vmx_read_segment_descriptor :: "x86_reg_segment \<Rightarrow> CPUState \<Rightarrow> vmx_segment"
  rdtscp :: u64
  tmp0 :: u64

text \<open>
  One pair of lines of \<open>hvf_put_segments\<close>: \<open>hvf_set_segment\<close> into the local \<open>seg\<close>,
  then \<open>vmx_write_segment_descriptor\<close>.
\<close>

definition put_segment ::
  "vmx_helpers \<Rightarrow> SegmentCache \<Rightarrow> bool \<Rightarrow> x86_reg_segment \<Rightarrow> CPUState \<Rightarrow> CPUState" where
  "put_segment H qseg is_tr r s =
     vmx_write_segment_descriptor H (hvf_set_segment (x86_is_real H s) qseg is_tr) r s"

definition hvf_put_segments :: "vmx_helpers \<Rightarrow> hv_returns \<Rightarrow> CPUState \<Rightarrow> CPUState" where
  "hvf_put_segments H hv cpu_state =
     (let e = env cpu_state;
          s = wvmcs cpu_state VMCS_GUEST_IDTR_LIMIT (ucast (limit (idt e)));
          s = wvmcs s VMCS_GUEST_IDTR_BASE (base (idt e));
          s = wvmcs s VMCS_GUEST_GDTR_LIMIT (ucast (limit (gdt e)));
          s = wvmcs s VMCS_GUEST_GDTR_BASE (base (gdt e));
          s = wvmcs s VMCS_GUEST_CR3 (cr e 3);
          s = vmx_update_tpr H s;
          s = wvmcs s VMCS_GUEST_IA32_EFER (efer e);
          s = macvm_set_cr4 H (cr e 4) s;
          s = macvm_set_cr0 H (cr e 0) s;
          s = put_segment H (segs e R_CS) False REG_SEG_CS s;
          s = put_segment H (segs e R_DS) False REG_SEG_DS s;
          s = put_segment H (segs e R_ES) False REG_SEG_ES s;
          s = put_segment H (segs e R_SS) False REG_SEG_SS s;
          s = put_segment H (segs e R_FS) False REG_SEG_FS s;
          s = put_segment H (segs e R_GS) False REG_SEG_GS s;
          s = put_segment H (tr e) True REG_SEG_TR s;
          s = put_segment H (ldt e) False REG_SEG_LDTR s
      in snd (hv_vcpu_flush hv s))"

text \<open>\<open>hvf_put_msrs\<close>, for a 64-bit target. The result of every host call is dropped.\<close>

definition hvf_put_msrs :: "hv_returns \<Rightarrow> CPUState \<Rightarrow> CPUState" where
  "hvf_put_msrs hv cpu_state =
     (let e = env cpu_state;
          s = snd (hv_vcpu_write_msr hv cpu_state MSR_IA32_SYSENTER_CS (ucast (sysenter_cs e)));
          s = snd (hv_vcpu_write_msr hv s MSR_IA32_SYSENTER_ESP (sysenter_esp e));
          s = snd (hv_vcpu_write_msr hv s MSR_IA32_SYSENTER_EIP (sysenter_eip e));
          s = snd (hv_vcpu_write_msr hv s MSR_STAR (star e));
          s = snd (hv_vcpu_write_msr hv s MSR_CSTAR (cstar e));
          s = snd (hv_vcpu_write_msr hv s MSR_KERNELGSBASE (kernelgsbase e));
          s = snd (hv_vcpu_write_msr hv s MSR_FMASK (fmask e));
          s = snd (hv_vcpu_write_msr hv s MSR_LSTAR (lstar e));
          s = snd (hv_vcpu_write_msr hv s MSR_GSBASE (base (segs e R_GS)));
          s = snd (hv_vcpu_write_msr hv s MSR_FSBASE (base (segs e R_FS)))
      in snd (hv_vm_sync_tsc hv s (tsc e)))"

text \<open>
  One pair of lines of \<open>hvf_get_segments\<close>: \<open>vmx_read_segment_descriptor\<close> into the
  local \<open>seg\<close>, then \<open>hvf_get_segment\<close>.
\<close>

definition get_segment :: "vmx_helpers \<Rightarrow> x86_reg_segment \<Rightarrow> CPUState \<Rightarrow> SegmentCache" where
  "get_segment H r s = hvf_get_segment (vmx_read_segment_descriptor H r s)"

definition hvf_get_segments :: "vmx_helpers \<Rightarrow> CPUState \<Rightarrow> CPUState" where
  "hvf_get_segments H cpu_state =
     (let e = env cpu_state;
          e = e\<lparr>interrupt_injected := - 1\<rparr>;
          e = e\<lparr>segs := (segs e)(R_CS := get_segment H REG_SEG_CS cpu_state)\<rparr>;
          e = e\<lparr>segs := (segs e)(R_DS := get_segment H REG_SEG_DS cpu_state)\<rparr>;
          e = e\<lparr>segs := (segs e)(R_ES := get_segment H REG_SEG_ES cpu_state)\<rparr>;
          e = e\<lparr>segs := (segs e)(R_FS := get_segment H REG_SEG_FS cpu_state)\<rparr>;
          e = e\<lparr>segs := (segs e)(R_GS := get_segment H REG_SEG_GS cpu_state)\<rparr>;
          e = e\<lparr>segs := (segs e)(R_SS := get_segment H REG_SEG_SS cpu_state)\<rparr>;
          e = e\<lparr>tr := get_segment H REG_SEG_TR cpu_state\<rparr>;
          e = e\<lparr>ldt := get_segment H REG_SEG_LDTR cpu_state\<rparr>;
          e = e\<lparr>idt := (idt e)\<lparr>limit := ucast (rvmcs cpu_state VMCS_GUEST_IDTR_LIMIT)\<rparr>\<rparr>;
          e = e\<lparr>idt := (idt e)\<lparr>base := rvmcs cpu_state VMCS_GUEST_IDTR_BASE\<rparr>\<rparr>;
          e = e\<lparr>gdt := (gdt e)\<lparr>limit := ucast (rvmcs cpu_state VMCS_GUEST_GDTR_LIMIT)\<rparr>\<rparr>;
          e = e\<lparr>gdt := (gdt e)\<lparr>base := rvmcs cpu_state VMCS_GUEST_GDTR_BASE\<rparr>\<rparr>;
          e = e\<lparr>cr := (cr e)(0 := rvmcs cpu_state VMCS_GUEST_CR0)\<rparr>;
          e = e\<lparr>cr := (cr e)(2 := 0)\<rparr>;
          e = e\<lparr>cr := (cr e)(3 := rvmcs cpu_state VMCS_GUEST_CR3)\<rparr>;
          e = e\<lparr>cr := (cr e)(4 := rvmcs cpu_state VMCS_GUEST_CR4)\<rparr>;
          e = e\<lparr>efer := rvmcs cpu_state VMCS_GUEST_IA32_EFER\<rparr>
      in cpu_state\<lparr>env := e\<rparr>)"

text \<open>
  \<open>hvf_get_msrs\<close>, for a 64-bit target. The result of every host call is dropped, also
  the \<open>r\<close> of line 290; a read that fails leaves \<open>tmp\<close>, or the field read into, as it
  was.
\<close>

definition hvf_get_msrs :: "vmx_helpers \<Rightarrow> hv_returns \<Rightarrow> CPUState \<Rightarrow> CPUState" where
  "hvf_get_msrs H hv cpu_state =
     (let e = env cpu_state;
          tmp = snd (hv_vcpu_read_msr hv cpu_state MSR_IA32_SYSENTER_CS (tmp0 H));
          e = e\<lparr>sysenter_cs := ucast tmp\<rparr>;
          tmp = snd (hv_vcpu_read_msr hv cpu_state MSR_IA32_SYSENTER_ESP tmp);
          e = e\<lparr>sysenter_esp := tmp\<rparr>;
          tmp = snd (hv_vcpu_read_msr hv cpu_state MSR_IA32_SYSENTER_EIP tmp);
          e = e\<lparr>sysenter_eip := tmp\<rparr>;
          e = e\<lparr>star := snd (hv_vcpu_read_msr hv cpu_state MSR_STAR (star e))\<rparr>;
          e = e\<lparr>cstar := snd (hv_vcpu_read_msr hv cpu_state MSR_CSTAR (cstar e))\<rparr>;
          e = e\<lparr>kernelgsbase :=
                 snd (hv_vcpu_read_msr hv cpu_state MSR_KERNELGSBASE (kernelgsbase e))\<rparr>;
          e = e\<lparr>fmask := snd (hv_vcpu_read_msr hv cpu_state MSR_FMASK (fmask e))\<rparr>;
          e = e\<lparr>lstar := snd (hv_vcpu_read_msr hv cpu_state MSR_LSTAR (lstar e))\<rparr>;
          tmp = snd (hv_vcpu_read_msr hv cpu_state MSR_IA32_APICBASE tmp);
          e = e\<lparr>tsc := rdtscp H + rvmcs cpu_state VMCS_TSC_OFFSET\<rparr>
      in cpu_state\<lparr>env := e\<rparr>)"

section \<open>Registers (x86hvf.c, lines 295-381)\<close>

definition R_EAX :: nat where "R_EAX = 0"
definition R_ECX :: nat where "R_ECX = 1"
definition R_EDX :: nat where "R_EDX = 2"
definition R_EBX :: nat where "R_EBX = 3"
definition R_ESP :: nat where "R_ESP = 4"
definition R_EBP :: nat where "R_EBP = 5"
definition R_ESI :: nat where "R_ESI = 6"
definition R_EDI :: nat where "R_EDI = 7"

text \<open>Lines 300-319 and 327-334 of \<open>hvf_put_registers\<close>, the writes around the calls.\<close>

definition put_general_registers :: "CPUState \<Rightarrow> CPUState" where
  "put_general_registers cpu_state =
     (let e = env cpu_state;
          s = wreg cpu_state HV_X86_RAX (regs e R_EAX);
          s = wreg s HV_X86_RBX (regs e R_EBX);
          s = wreg s HV_X86_RCX (regs e R_ECX);
          s = wreg s HV_X86_RDX (regs e R_EDX);
          s = wreg s HV_X86_RBP (regs e R_EBP);
          s = wreg s HV_X86_RSP (regs e R_ESP);
          s = wreg s HV_X86_RSI (regs e R_ESI);
          s = wreg s HV_X86_RDI (regs e R_EDI);
          s = wreg s HV_X86_R8 (regs e 8);
          s = wreg s HV_X86_R9 (regs e 9);
          s = wreg s HV_X86_R10 (regs e 10);
          s = wreg s HV_X86_R11 (regs e 11);
          s = wreg s HV_X86_R12 (regs e 12);
          s = wreg s HV_X86_R13 (regs e 13);
          s = wreg s HV_X86_R14 (regs e 14);
          s = wreg s HV_X86_R15 (regs e 15);
          s = wreg s HV_X86_RFLAGS (eflags e);
          s = wreg s HV_X86_RIP (eip e)
      in wreg s HV_X86_XCR0 (xcr0 e))"

definition put_debug_registers :: "CPUState \<Rightarrow> CPUState" where
  "put_debug_registers cpu_state =
     (let e = env cpu_state;
          s = wreg cpu_state HV_X86_DR0 (dr e 0);
          s = wreg s HV_X86_DR1 (dr e 1);
          s = wreg s HV_X86_DR2 (dr e 2);
          s = wreg s HV_X86_DR3 (dr e 3);
          s = wreg s HV_X86_DR4 (dr e 4);
          s = wreg s HV_X86_DR5 (dr e 5);
          s = wreg s HV_X86_DR6 (dr e 6)
      in wreg s HV_X86_DR7 (dr e 7))"

text \<open>
  \<open>hvf_put_registers\<close>: \<open>None\<close> when the process is aborted, otherwise the returned
  \<open>int\<close>, which is always 0, and the state.
\<close>

definition hvf_put_registers ::
  "vmx_helpers \<Rightarrow> hv_returns \<Rightarrow> CPUState \<Rightarrow> (u32 \<times> CPUState) option" where
  "hvf_put_registers H hv cpu_state =
     (case hvf_put_xsave hv (put_general_registers cpu_state) of
        None \<Rightarrow> None
      | Some s \<Rightarrow>
          Some (0, put_debug_registers (hvf_put_msrs hv (hvf_put_segments H hv s))))"

text \<open>Lines 345-363 and 371-378 of \<open>hvf_get_registers\<close>, the reads around the calls.\<close>

definition get_general_registers :: "CPUState \<Rightarrow> CPUState" where
  "get_general_registers cpu_state =
     (let e = env cpu_state;
          e = e\<lparr>regs := (regs e)(R_EAX := rreg cpu_state HV_X86_RAX)\<rparr>;
          e = e\<lparr>regs := (regs e)(R_EBX := rreg cpu_state HV_X86_RBX)\<rparr>;
          e = e\<lparr>regs := (regs e)(R_ECX := rreg cpu_state HV_X86_RCX)\<rparr>;
          e = e\<lparr>regs := (regs e)(R_EDX := rreg cpu_state HV_X86_RDX)\<rparr>;
          e = e\<lparr>regs := (regs e)(R_EBP := rreg cpu_state HV_X86_RBP)\<rparr>;
          e = e\<lparr>regs := (regs e)(R_ESP := rreg cpu_state HV_X86_RSP)\<rparr>;
          e = e\<lparr>regs := (regs e)(R_ESI := rreg cpu_state HV_X86_RSI)\<rparr>;
          e = e\<lparr>regs := (regs e)(R_EDI := rreg cpu_state HV_X86_RDI)\<rparr>;
          e = e\<lparr>regs := (regs e)(8 := rreg cpu_state HV_X86_R8)\<rparr>;
          e = e\<lparr>regs := (regs e)(9 := rreg cpu_state HV_X86_R9)\<rparr>;
          e = e\<lparr>regs := (regs e)(10 := rreg cpu_state HV_X86_R10)\<rparr>;
          e = e\<lparr>regs := (regs e)(11 := rreg cpu_state HV_X86_R11)\<rparr>;
          e = e\<lparr>regs := (regs e)(12 := rreg cpu_state HV_X86_R12)\<rparr>;
          e = e\<lparr>regs := (regs e)(13 := rreg cpu_state HV_X86_R13)\<rparr>;
          e = e\<lparr>regs := (regs e)(14 := rreg cpu_state HV_X86_R14)\<rparr>;
          e = e\<lparr>regs := (regs e)(15 := rreg cpu_state HV_X86_R15)\<rparr>;
          e = e\<lparr>eflags := rreg cpu_state HV_X86_RFLAGS\<rparr>;
          e = e\<lparr>eip := rreg cpu_state HV_X86_RIP\<rparr>
      in cpu_state\<lparr>env := e\<rparr>)"

definition get_debug_registers :: "CPUState \<Rightarrow> CPUState" where
  "get_debug_registers cpu_state =
     (let e = env cpu_state;
          e = e\<lparr>dr := (dr e)(0 := rreg cpu_state HV_X86_DR0)\<rparr>;
          e = e\<lparr>dr := (dr e)(1 := rreg cpu_state HV_X86_DR1)\<rparr>;
          e = e\<lparr>dr := (dr e)(2 := rreg cpu_state HV_X86_DR2)\<rparr>;
          e = e\<lparr>dr := (dr e)(3 := rreg cpu_state HV_X86_DR3)\<rparr>;
          e = e\<lparr>dr := (dr e)(4 := rreg cpu_state HV_X86_DR4)\<rparr>;
          e = e\<lparr>dr := (dr e)(5 := rreg cpu_state HV_X86_DR5)\<rparr>;
          e = e\<lparr>dr := (dr e)(6 := rreg cpu_state HV_X86_DR6)\<rparr>;
          e = e\<lparr>dr := (dr e)(7 := rreg cpu_state HV_X86_DR7)\<rparr>
      in cpu_state\<lparr>env := e\<rparr>)"

definition hvf_get_registers ::
  "vmx_helpers \<Rightarrow> hv_returns \<Rightarrow> CPUState \<Rightarrow> (u32 \<times> CPUState) option" where
  "hvf_get_registers H hv cpu_state =
     (case hvf_get_xsave hv (get_general_registers cpu_state) of
        None \<Rightarrow> None
      | Some s \<Rightarrow>
          (let s = s\<lparr>env := (env s)\<lparr>xcr0 := rreg s HV_X86_XCR0\<rparr>\<rparr>
           in Some (0, get_debug_registers (hvf_get_msrs H hv (hvf_get_segments H s)))))"

text \<open>Helpers that leave the host as it is and read a zero descriptor.\<close>

definition idle_helpers :: vmx_helpers where
  "idle_helpers = \<lparr>x86_is_real = (\<lambda>s. False), vmx_update_tpr = (\<lambda>s. s),
     macvm_set_cr4 = (\<lambda>v s. s), macvm_set_cr0 = (\<lambda>v s. s),
     vmx_write_segment_descriptor = (\<lambda>seg r s. s),
     vmx_read_segment_descriptor = (\<lambda>r s. \<lparr>sel = 0, vbase = 0, vlimit = 0, ar = 0\<rparr>),
     rdtscp = 0, tmp0 = 0\<rparr>"

text \<open>The host calls that all succeed, and the ones where only the write of STAR fails.\<close>

definition hv_success :: hv_returns where
  "hv_success = (\<lambda>_. 0)"

definition hv_star_write_fails :: hv_returns where
  "hv_star_write_fails = (\<lambda>c. if c = Hv_vcpu_write_msr MSR_STAR then 1 else 0)"

section \<open>Properties of the injector and of the event processor\<close>


lemma rvmcs_wvmcs [simp]: "rvmcs (wvmcs s f v) g = (if g = f then v else rvmcs s g)"
  by (simp add: rvmcs_def wvmcs_def)

lemma wvmcs_frame [simp]:
  "interrupt_request (wvmcs s f v) = interrupt_request s"
  "hvf_interruptable (wvmcs s f v) = hvf_interruptable s"
  "hvf_EFLAGS (wvmcs s f v) = hvf_EFLAGS s"
  "halted (wvmcs s f v) = halted s"
  "env (wvmcs s f v) = env s"
  by (simp_all add: wvmcs_def)

lemma rvmcs_frame [simp]:
  "rvmcs (s\<lparr>interrupt_request := x\<rparr>) f = rvmcs s f"
  "rvmcs (s\<lparr>halted := h\<rparr>) f = rvmcs s f"
  "rvmcs (s\<lparr>hvf_EFLAGS := e\<rparr>) f = rvmcs s f"
  by (simp_all add: rvmcs_def)

lemma and_bit_eq_0_iff: "(x AND push_bit n 1 = 0) \<longleftrightarrow> \<not> bit (x::'a::len word) n"
  by (simp add: push_bit_of_1 and_exp_eq_0_iff_not_bit)

lemma clear_then_test: "(x AND NOT m) AND m = (0::'a::len word)"
  by (simp add: and.assoc)

lemma retype_field: "((x AND NOT (0x700::u64)) OR 0x600) AND 0x700 = 0x600"
proof -
  have "((x AND NOT (0x700::u64)) OR 0x600) AND 0x700 = ((x AND NOT 0x700) AND 0x700) OR (0x600 AND 0x700)"
    by (simp only: bit.conj_disj_distrib2)
  also have "\<dots> = 0x600" by (simp add: and.assoc)
  finally show ?thesis .
qed




lemma reinjection_none:
  "rvmcs s VMCS_IDT_VECTORING_INFO AND VMCS_IDT_VEC_VALID = 0 \<Longrightarrow>
   inject_reinjection s =
     (rvmcs s VMCS_GUEST_INTERRUPTIBILITY AND VMCS_INTERRUPTIBILITY_NMI_BLOCKING = 0, 0, s)"
  by (simp add: inject_reinjection_def Let_def)

lemma int_window_nonzero [simp]: "VMCS_PRI_PROC_BASED_CTLS_INT_WINDOW_EXITING \<noteq> 0"
  by (simp add: VMCS_PRI_PROC_BASED_CTLS_INT_WINDOW_EXITING_def)

text \<open>
  Claim C3, amended. For every injector cycle in which the guest model has a pending
  hardware-interrupt request, the interrupt-enable bit of EFLAGS is 0, the vectoring
  info is not valid and no NMI request is pending, \<open>hvf_inject_interrupts\<close> leaves the
  entry-injection field as it was and sets the interrupt-window-exiting bit of the
  primary processor-based controls; the request stays pending.
\<close>

theorem hard_pending_if_clear_arms_window:
  assumes "interrupt_request s AND CPU_INTERRUPT_HARD \<noteq> 0"
    and "hvf_EFLAGS s AND IF_MASK = 0"
    and "rvmcs s VMCS_IDT_VECTORING_INFO AND VMCS_IDT_VEC_VALID = 0"
    and "interrupt_request s AND CPU_INTERRUPT_NMI = 0"
  shows "rvmcs (hvf_inject_interrupts line s) VMCS_ENTRY_INTR_INFO = rvmcs s VMCS_ENTRY_INTR_INFO
    \<and> rvmcs (hvf_inject_interrupts line s) VMCS_PRI_PROC_BASED_CTLS
        = rvmcs s VMCS_PRI_PROC_BASED_CTLS OR VMCS_PRI_PROC_BASED_CTLS_INT_WINDOW_EXITING
    \<and> rvmcs (hvf_inject_interrupts line s) VMCS_PRI_PROC_BASED_CTLS
        AND VMCS_PRI_PROC_BASED_CTLS_INT_WINDOW_EXITING \<noteq> 0
    \<and> interrupt_request (hvf_inject_interrupts line s) = interrupt_request s"
proof -
  have "hvf_inject_interrupts line s = vmx_set_int_window_exiting s"
    using assms
    by (simp add: hvf_inject_interrupts_def reinjection_none inject_nmi_def inject_hard_def)
  then show ?thesis
    by (simp add: vmx_set_int_window_exiting_def)
qed

text \<open>
  Claim C3, as stated, fails: with only the hardware-interrupt request set and
  interrupt-enable 0, the controls go from 0 to 4, the interrupt-window-exiting bit.
\<close>

theorem hard_pending_if_clear_counterexample:
  "interrupt_request (zero_cpu\<lparr>interrupt_request := 2\<rparr>) AND CPU_INTERRUPT_HARD \<noteq> 0
   \<and> hvf_EFLAGS (zero_cpu\<lparr>interrupt_request := 2\<rparr>) AND IF_MASK = 0
   \<and> rvmcs (zero_cpu\<lparr>interrupt_request := 2\<rparr>) VMCS_IDT_VECTORING_INFO AND VMCS_IDT_VEC_VALID = 0
   \<and> interrupt_request (zero_cpu\<lparr>interrupt_request := 2\<rparr>) AND CPU_INTERRUPT_NMI = 0
   \<and> rvmcs (zero_cpu\<lparr>interrupt_request := 2\<rparr>) VMCS_PRI_PROC_BASED_CTLS = 0
   \<and> rvmcs (hvf_inject_interrupts 0 (zero_cpu\<lparr>interrupt_request := 2\<rparr>))
         VMCS_PRI_PROC_BASED_CTLS = 4"
  by (simp add: hvf_inject_interrupts_def inject_reinjection_def inject_nmi_def inject_hard_def
      vmx_set_int_window_exiting_def zero_cpu_def zero_vcpu_def rvmcs_def wvmcs_def
      CPU_INTERRUPT_HARD_def CPU_INTERRUPT_NMI_def IF_MASK_def VMCS_IDT_VEC_VALID_def
      VMCS_INTERRUPTIBILITY_NMI_BLOCKING_def VMCS_PRI_PROC_BASED_CTLS_INT_WINDOW_EXITING_def
      VMCS_INTR_VALID_def)

theorem hard_pending_if_clear_arms_window_witness:
  "rvmcs (hvf_inject_interrupts 0 (zero_cpu\<lparr>interrupt_request := 2\<rparr>)) VMCS_ENTRY_INTR_INFO = 0
   \<and> rvmcs (hvf_inject_interrupts 0 (zero_cpu\<lparr>interrupt_request := 2\<rparr>))
         VMCS_PRI_PROC_BASED_CTLS AND VMCS_PRI_PROC_BASED_CTLS_INT_WINDOW_EXITING \<noteq> 0"
proof -
  have h: "interrupt_request (zero_cpu\<lparr>interrupt_request := 2\<rparr>) AND CPU_INTERRUPT_HARD \<noteq> 0"
    "hvf_EFLAGS (zero_cpu\<lparr>interrupt_request := 2\<rparr>) AND IF_MASK = 0"
    "rvmcs (zero_cpu\<lparr>interrupt_request := 2\<rparr>) VMCS_IDT_VECTORING_INFO AND VMCS_IDT_VEC_VALID = 0"
    "interrupt_request (zero_cpu\<lparr>interrupt_request := 2\<rparr>) AND CPU_INTERRUPT_NMI = 0"
    by (simp_all add: zero_cpu_def zero_vcpu_def rvmcs_def CPU_INTERRUPT_HARD_def
        CPU_INTERRUPT_NMI_def)
  have z: "rvmcs (zero_cpu\<lparr>interrupt_request := 2\<rparr>) VMCS_ENTRY_INTR_INFO = 0"
    by (simp add: zero_cpu_def zero_vcpu_def rvmcs_def)
  show ?thesis
    using hard_pending_if_clear_arms_window [OF h, of 0] z by simp
qed




lemma or_other_bit:
  "a \<noteq> b \<Longrightarrow> (x OR push_bit a 1) AND push_bit b 1 = x AND (push_bit b 1 :: 'a::len word)"
  by (rule bit_word_eqI) (auto simp: bit_simps)

lemma nmi_window_keeps_int_window:
  "(x OR VMCS_PRI_PROC_BASED_CTLS_NMI_WINDOW_EXITING) AND VMCS_PRI_PROC_BASED_CTLS_INT_WINDOW_EXITING
     = x AND VMCS_PRI_PROC_BASED_CTLS_INT_WINDOW_EXITING"
  unfolding VMCS_PRI_PROC_BASED_CTLS_NMI_WINDOW_EXITING_def
    VMCS_PRI_PROC_BASED_CTLS_INT_WINDOW_EXITING_def
  by (rule or_other_bit) simp

lemma zero_not_valid [simp]: "(0::u64) AND VMCS_INTR_VALID = 0"
  by simp

text \<open>
  Claim C2, amended. In the hardware-interrupt step (pending hardware-interrupt
  request, interruptibility open, interrupt-enable set, no event queued: the vectoring
  info is not valid, and an NMI request is absent or blocked) the request bit is
  cleared whether or not the interrupt controller returns a vector. A vector, a
  non-negative value, is written to the entry-injection field as a valid hardware
  interrupt; without one the field stays as it was. The interrupt-window-exiting bit is
  left as it was: no window is armed, since the request is no longer pending.
\<close>

theorem hard_step_always_clears_request:
  assumes "hvf_interruptable s"
    and "interrupt_request s AND CPU_INTERRUPT_HARD \<noteq> 0"
    and "hvf_EFLAGS s AND IF_MASK \<noteq> 0"
    and "rvmcs s VMCS_IDT_VECTORING_INFO AND VMCS_IDT_VEC_VALID = 0"
    and "interrupt_request s AND CPU_INTERRUPT_NMI = 0
         \<or> rvmcs s VMCS_GUEST_INTERRUPTIBILITY AND VMCS_INTERRUPTIBILITY_NMI_BLOCKING \<noteq> 0"
  shows "interrupt_request (hvf_inject_interrupts line s)
           = interrupt_request s AND NOT CPU_INTERRUPT_HARD
    \<and> interrupt_request (hvf_inject_interrupts line s) AND CPU_INTERRUPT_HARD = 0
    \<and> rvmcs (hvf_inject_interrupts line s) VMCS_ENTRY_INTR_INFO
        = (if 0 \<le> sint line
           then ucast (line OR ucast VMCS_INTR_VALID OR ucast VMCS_INTR_T_HWINTR)
           else rvmcs s VMCS_ENTRY_INTR_INFO)
    \<and> rvmcs (hvf_inject_interrupts line s) VMCS_PRI_PROC_BASED_CTLS
          AND VMCS_PRI_PROC_BASED_CTLS_INT_WINDOW_EXITING
        = rvmcs s VMCS_PRI_PROC_BASED_CTLS AND VMCS_PRI_PROC_BASED_CTLS_INT_WINDOW_EXITING"
proof (cases "interrupt_request s AND CPU_INTERRUPT_NMI = 0")
  case True
  with assms show ?thesis
    by (simp add: hvf_inject_interrupts_def reinjection_none inject_nmi_def inject_hard_def
        Let_def clear_then_test)
next
  case False
  with assms show ?thesis
    by (simp add: hvf_inject_interrupts_def reinjection_none inject_nmi_def inject_hard_def
        Let_def clear_then_test vmx_set_nmi_window_exiting_def nmi_window_keeps_int_window)
qed

text \<open>
  Claim C2, as stated, fails: when the controller returns \<open>-1\<close> the request bit is
  cleared all the same and the controls stay 0, so no interrupt window is armed.
\<close>

theorem hard_step_no_vector_counterexample:
  "hvf_interruptable (zero_cpu\<lparr>interrupt_request := 2, hvf_EFLAGS := 0x200\<rparr>)
   \<and> interrupt_request (zero_cpu\<lparr>interrupt_request := 2, hvf_EFLAGS := 0x200\<rparr>)
         AND CPU_INTERRUPT_HARD \<noteq> 0
   \<and> hvf_EFLAGS (zero_cpu\<lparr>interrupt_request := 2, hvf_EFLAGS := 0x200\<rparr>) AND IF_MASK \<noteq> 0
   \<and> rvmcs (zero_cpu\<lparr>interrupt_request := 2, hvf_EFLAGS := 0x200\<rparr>) VMCS_IDT_VECTORING_INFO = 0
   \<and> sint (- 1 :: u32) < 0
   \<and> interrupt_request
         (hvf_inject_interrupts (- 1) (zero_cpu\<lparr>interrupt_request := 2, hvf_EFLAGS := 0x200\<rparr>))
         AND CPU_INTERRUPT_HARD = 0
   \<and> rvmcs (hvf_inject_interrupts (- 1) (zero_cpu\<lparr>interrupt_request := 2, hvf_EFLAGS := 0x200\<rparr>))
         VMCS_PRI_PROC_BASED_CTLS = 0"
  by (simp add: hvf_inject_interrupts_def inject_reinjection_def inject_nmi_def inject_hard_def
      vmx_set_int_window_exiting_def zero_cpu_def zero_vcpu_def rvmcs_def wvmcs_def
      CPU_INTERRUPT_HARD_def CPU_INTERRUPT_NMI_def IF_MASK_def VMCS_IDT_VEC_VALID_def
      VMCS_INTERRUPTIBILITY_NMI_BLOCKING_def VMCS_PRI_PROC_BASED_CTLS_INT_WINDOW_EXITING_def
      VMCS_INTR_VALID_def)

theorem hard_step_always_clears_request_witness:
  "interrupt_request
     (hvf_inject_interrupts 0x30 (zero_cpu\<lparr>interrupt_request := 2, hvf_EFLAGS := 0x200\<rparr>)) = 0
   \<and> rvmcs (hvf_inject_interrupts 0x30 (zero_cpu\<lparr>interrupt_request := 2, hvf_EFLAGS := 0x200\<rparr>))
         VMCS_ENTRY_INTR_INFO = 0x80000030"
proof -
  let ?s = "zero_cpu\<lparr>interrupt_request := 2, hvf_EFLAGS := 0x200\<rparr>"
  have h: "hvf_interruptable ?s"
    "interrupt_request ?s AND CPU_INTERRUPT_HARD \<noteq> 0"
    "hvf_EFLAGS ?s AND IF_MASK \<noteq> 0"
    "rvmcs ?s VMCS_IDT_VECTORING_INFO AND VMCS_IDT_VEC_VALID = 0"
    "interrupt_request ?s AND CPU_INTERRUPT_NMI = 0
       \<or> rvmcs ?s VMCS_GUEST_INTERRUPTIBILITY AND VMCS_INTERRUPTIBILITY_NMI_BLOCKING \<noteq> 0"
    by (simp_all add: zero_cpu_def zero_vcpu_def rvmcs_def CPU_INTERRUPT_HARD_def
        CPU_INTERRUPT_NMI_def IF_MASK_def)
  show ?thesis
    using hard_step_always_clears_request [OF h, of "0x30"]
    by (simp add: CPU_INTERRUPT_HARD_def VMCS_INTR_VALID_def VMCS_INTR_T_HWINTR_def)
qed




lemma hvf_inject_interrupts_steps:
  "hvf_inject_interrupts line s =
     inject_hard line
       (fst (inject_nmi (fst (inject_reinjection s)) (fst (snd (inject_reinjection s)))
               (snd (snd (inject_reinjection s)))))
       (snd (inject_nmi (fst (inject_reinjection s)) (fst (snd (inject_reinjection s)))
               (snd (snd (inject_reinjection s)))))"
  by (simp add: hvf_inject_interrupts_def case_prod_beta)

lemma inject_nmi_frame:
  "f \<noteq> VMCS_ENTRY_INTR_INFO \<Longrightarrow> f \<noteq> VMCS_PRI_PROC_BASED_CTLS \<Longrightarrow>
     rvmcs (snd (inject_nmi a i s)) f = rvmcs s f"
  by (simp add: inject_nmi_def Let_def vmx_set_nmi_window_exiting_def)

lemma inject_nmi_queued:
  "i AND VMCS_INTR_VALID \<noteq> 0 \<Longrightarrow>
     fst (inject_nmi a i s) = i \<and>
     rvmcs (snd (inject_nmi a i s)) VMCS_ENTRY_INTR_INFO = rvmcs s VMCS_ENTRY_INTR_INFO"
  by (simp add: inject_nmi_def Let_def vmx_set_nmi_window_exiting_def)

lemma inject_hard_frame:
  "f \<noteq> VMCS_ENTRY_INTR_INFO \<Longrightarrow> f \<noteq> VMCS_PRI_PROC_BASED_CTLS \<Longrightarrow>
     rvmcs (inject_hard line i s) f = rvmcs s f"
  by (simp add: inject_hard_def Let_def vmx_set_int_window_exiting_def)

lemma inject_hard_queued:
  "i AND VMCS_INTR_VALID \<noteq> 0 \<Longrightarrow>
     rvmcs (inject_hard line i s) VMCS_ENTRY_INTR_INFO = rvmcs s VMCS_ENTRY_INTR_INFO"
  by (simp add: inject_hard_def Let_def vmx_set_int_window_exiting_def)

lemma cycle_frame:
  "f \<noteq> VMCS_ENTRY_INTR_INFO \<Longrightarrow> f \<noteq> VMCS_PRI_PROC_BASED_CTLS \<Longrightarrow>
     rvmcs (hvf_inject_interrupts line s) f = rvmcs (snd (snd (inject_reinjection s))) f"
  by (simp add: hvf_inject_interrupts_steps inject_hard_frame inject_nmi_frame)

lemma cycle_queued:
  "fst (snd (inject_reinjection s)) AND VMCS_INTR_VALID \<noteq> 0 \<Longrightarrow>
     rvmcs (hvf_inject_interrupts line s) VMCS_ENTRY_INTR_INFO
       = rvmcs (snd (snd (inject_reinjection s))) VMCS_ENTRY_INTR_INFO"
  by (simp add: hvf_inject_interrupts_steps inject_hard_queued inject_nmi_queued)

lemma valid_kept:
  "x AND VMCS_IDT_VEC_VALID \<noteq> 0 \<Longrightarrow> (x AND NOT (push_bit 12 1)) AND VMCS_INTR_VALID \<noteq> 0"
  by (simp only: VMCS_IDT_VEC_VALID_def VMCS_INTR_VALID_def and_bit_eq_0_iff bit_and_iff
      bit_not_iff bit_push_bit_iff bit_1_iff possible_bit_word) simp

lemma valid_kept_retyped:
  "x AND VMCS_IDT_VEC_VALID \<noteq> 0 \<Longrightarrow>
   (((x AND NOT (push_bit 12 1)) AND NOT VMCS_INTR_T_MASK) OR VMCS_INTR_T_SWEXCEPTION)
      AND VMCS_INTR_VALID \<noteq> 0"
proof -
  assume "x AND VMCS_IDT_VEC_VALID \<noteq> 0"
  then have b: "bit x 31" by (simp only: VMCS_IDT_VEC_VALID_def and_bit_eq_0_iff) simp
  have m: "VMCS_INTR_T_MASK = push_bit 8 (mask 3)"
    by (simp add: VMCS_INTR_T_MASK_def mask_eq_exp_minus_1)
  have "bit (((x AND NOT (push_bit 12 1)) AND NOT VMCS_INTR_T_MASK) OR VMCS_INTR_T_SWEXCEPTION) 31"
    using b unfolding m by (simp add: bit_or_iff bit_and_iff bit_not_iff bit_push_bit_iff bit_mask_iff)
  then show ?thesis by (simp only: VMCS_INTR_VALID_def and_bit_eq_0_iff) simp
qed




lemma type_consts:
  "VMCS_INTR_T_NMI \<noteq> VMCS_INTR_T_SWINTR"
  "VMCS_INTR_T_NMI \<noteq> VMCS_INTR_T_PRIV_SWEXCEPTION"
  "VMCS_INTR_T_NMI \<noteq> VMCS_INTR_T_SWEXCEPTION"
  by (simp_all add: VMCS_INTR_T_NMI_def VMCS_INTR_T_SWINTR_def VMCS_INTR_T_PRIV_SWEXCEPTION_def
      VMCS_INTR_T_SWEXCEPTION_def)

lemma clear12: "(- 4097 :: u64) = NOT (push_bit 12 1)"
  by simp

lemma valid_kept': "x AND VMCS_IDT_VEC_VALID \<noteq> 0 \<Longrightarrow> (x AND - 4097) AND VMCS_INTR_VALID \<noteq> 0"
  unfolding clear12 by (rule valid_kept)

lemma valid_kept_retyped':
  "x AND VMCS_IDT_VEC_VALID \<noteq> 0 \<Longrightarrow>
   (((x AND - 4097) AND NOT VMCS_INTR_T_MASK) OR VMCS_INTR_T_SWEXCEPTION)
      AND VMCS_INTR_VALID \<noteq> 0"
  unfolding clear12 by (rule valid_kept_retyped)

lemma swexception_type:
  "((x AND NOT VMCS_INTR_T_MASK) OR VMCS_INTR_T_SWEXCEPTION) AND VMCS_INTR_T_MASK
     = VMCS_INTR_T_SWEXCEPTION"
  using retype_field [of x] by (simp add: VMCS_INTR_T_MASK_def VMCS_INTR_T_SWEXCEPTION_def)

lemma reinjection_nmi:
  assumes "rvmcs s VMCS_IDT_VECTORING_INFO AND VMCS_IDT_VEC_VALID \<noteq> 0"
    and "rvmcs s VMCS_IDT_VECTORING_INFO AND VMCS_INTR_T_MASK = VMCS_INTR_T_NMI"
    and "rvmcs s VMCS_EXIT_REASON \<noteq> EXIT_REASON_TASK_SWITCH"
  shows "fst (inject_reinjection s)"
    and "rvmcs (snd (snd (inject_reinjection s))) VMCS_GUEST_INTERRUPTIBILITY
          = rvmcs s VMCS_GUEST_INTERRUPTIBILITY AND NOT VMCS_INTERRUPTIBILITY_NMI_BLOCKING"
    and "fst (snd (inject_reinjection s)) AND VMCS_INTR_VALID \<noteq> 0"
    and "rvmcs (snd (snd (inject_reinjection s))) VMCS_ENTRY_INTR_INFO
          = fst (snd (inject_reinjection s))"
  using assms
  by (simp_all add: inject_reinjection_def Let_def vmx_clear_nmi_blocking_def type_consts
      valid_kept' valid_kept_retyped')

text \<open>
  Claim C5. For every injector cycle whose vectoring info is valid, of NMI type, and
  whose exit reason is not a task switch: after the reinjection the local \<open>allow_nmi\<close>
  is true and the NMI-blocking bit of the interruptibility state is clear, it is still
  clear at the end of the cycle, and the event has been queued in the entry-injection
  field whatever the blocking bit was on entry.
\<close>

theorem nmi_reinjection_allows_nmi:
  assumes "rvmcs s VMCS_IDT_VECTORING_INFO AND VMCS_IDT_VEC_VALID \<noteq> 0"
    and "rvmcs s VMCS_IDT_VECTORING_INFO AND VMCS_INTR_T_MASK = VMCS_INTR_T_NMI"
    and "rvmcs s VMCS_EXIT_REASON \<noteq> EXIT_REASON_TASK_SWITCH"
  shows "fst (inject_reinjection s)
    \<and> rvmcs (snd (snd (inject_reinjection s))) VMCS_GUEST_INTERRUPTIBILITY
          AND VMCS_INTERRUPTIBILITY_NMI_BLOCKING = 0
    \<and> rvmcs (hvf_inject_interrupts line s) VMCS_GUEST_INTERRUPTIBILITY
          AND VMCS_INTERRUPTIBILITY_NMI_BLOCKING = 0
    \<and> rvmcs (hvf_inject_interrupts line s) VMCS_ENTRY_INTR_INFO AND VMCS_INTR_VALID \<noteq> 0"
  using reinjection_nmi [OF assms]
  by (simp add: cycle_frame cycle_queued clear_then_test)

theorem nmi_reinjection_allows_nmi_witness:
  "rvmcs (hvf_inject_interrupts 0
      (wvmcs (wvmcs zero_cpu VMCS_IDT_VECTORING_INFO 0x80000202) VMCS_GUEST_INTERRUPTIBILITY 8))
      VMCS_GUEST_INTERRUPTIBILITY AND VMCS_INTERRUPTIBILITY_NMI_BLOCKING = 0
   \<and> rvmcs (wvmcs (wvmcs zero_cpu VMCS_IDT_VECTORING_INFO 0x80000202) VMCS_GUEST_INTERRUPTIBILITY 8)
      VMCS_GUEST_INTERRUPTIBILITY AND VMCS_INTERRUPTIBILITY_NMI_BLOCKING \<noteq> 0"
proof -
  let ?s = "wvmcs (wvmcs zero_cpu VMCS_IDT_VECTORING_INFO 0x80000202) VMCS_GUEST_INTERRUPTIBILITY 8"
  have h: "rvmcs ?s VMCS_IDT_VECTORING_INFO AND VMCS_IDT_VEC_VALID \<noteq> 0"
    "rvmcs ?s VMCS_IDT_VECTORING_INFO AND VMCS_INTR_T_MASK = VMCS_INTR_T_NMI"
    "rvmcs ?s VMCS_EXIT_REASON \<noteq> EXIT_REASON_TASK_SWITCH"
    by (simp_all add: zero_cpu_def zero_vcpu_def rvmcs_def wvmcs_def VMCS_IDT_VEC_VALID_def
        VMCS_INTR_T_MASK_def VMCS_INTR_T_NMI_def EXIT_REASON_TASK_SWITCH_def)
  show ?thesis
    using nmi_reinjection_allows_nmi [OF h, of 0]
    by (simp add: VMCS_INTERRUPTIBILITY_NMI_BLOCKING_def)
qed





lemma reinjection_bp_of:
  assumes v: "rvmcs s VMCS_IDT_VECTORING_INFO AND VMCS_IDT_VEC_VALID \<noteq> 0"
    and b: "ucast (rvmcs s VMCS_IDT_VECTORING_INFO AND 0xff) = EXCEPTION_BP
         \<or> ucast (rvmcs s VMCS_IDT_VECTORING_INFO AND 0xff) = EXCEPTION_OF"
    and g: "rvmcs s VMCS_IDT_VECTORING_INFO AND VMCS_INTR_T_MASK \<noteq> VMCS_INTR_T_NMI
         \<or> rvmcs s VMCS_GUEST_INTERRUPTIBILITY AND VMCS_INTERRUPTIBILITY_NMI_BLOCKING = 0
         \<or> rvmcs s VMCS_EXIT_REASON \<noteq> EXIT_REASON_TASK_SWITCH"
  shows "fst (snd (inject_reinjection s))
           = ((rvmcs s VMCS_IDT_VECTORING_INFO AND NOT (push_bit 12 1)) AND NOT VMCS_INTR_T_MASK)
             OR VMCS_INTR_T_SWEXCEPTION
       \<and> rvmcs (snd (snd (inject_reinjection s))) VMCS_ENTRY_INTR_INFO
           = fst (snd (inject_reinjection s))
       \<and> rvmcs (snd (snd (inject_reinjection s))) VMCS_ENTRY_INST_LENGTH
           = rvmcs s VMCS_EXIT_INSTRUCTION_LENGTH"
proof -
  consider
      (other) "rvmcs s VMCS_IDT_VECTORING_INFO AND VMCS_INTR_T_MASK \<noteq> VMCS_INTR_T_NMI"
    | (nmi_exit) "rvmcs s VMCS_IDT_VECTORING_INFO AND VMCS_INTR_T_MASK = VMCS_INTR_T_NMI"
        "rvmcs s VMCS_EXIT_REASON \<noteq> EXIT_REASON_TASK_SWITCH"
    | (nmi_open) "rvmcs s VMCS_IDT_VECTORING_INFO AND VMCS_INTR_T_MASK = VMCS_INTR_T_NMI"
        "rvmcs s VMCS_EXIT_REASON = EXIT_REASON_TASK_SWITCH"
        "rvmcs s VMCS_GUEST_INTERRUPTIBILITY AND VMCS_INTERRUPTIBILITY_NMI_BLOCKING = 0"
    using g by blast
  then show ?thesis
  proof cases
    case other
    with v b show ?thesis
      by (simp add: inject_reinjection_def Let_def)
  next
    case nmi_exit
    with v b show ?thesis
      by (simp add: inject_reinjection_def Let_def vmx_clear_nmi_blocking_def type_consts)
  next
    case nmi_open
    with v b show ?thesis
      by (simp add: inject_reinjection_def Let_def type_consts)
  qed
qed

text \<open>
  The reinjection of a breakpoint or overflow event over the whole cycle, under the
  guard of line 418: the type of the vectoring info is not NMI, or NMI blocking is
  clear, or the exit reason is not a task switch.
\<close>

lemma bp_of_reinjected_under_guard:
  assumes "rvmcs s VMCS_IDT_VECTORING_INFO AND VMCS_IDT_VEC_VALID \<noteq> 0"
    and "ucast (rvmcs s VMCS_IDT_VECTORING_INFO AND 0xff) = EXCEPTION_BP
         \<or> ucast (rvmcs s VMCS_IDT_VECTORING_INFO AND 0xff) = EXCEPTION_OF"
    and "rvmcs s VMCS_IDT_VECTORING_INFO AND VMCS_INTR_T_MASK \<noteq> VMCS_INTR_T_NMI
         \<or> rvmcs s VMCS_GUEST_INTERRUPTIBILITY AND VMCS_INTERRUPTIBILITY_NMI_BLOCKING = 0
         \<or> rvmcs s VMCS_EXIT_REASON \<noteq> EXIT_REASON_TASK_SWITCH"
  shows "rvmcs (hvf_inject_interrupts line s) VMCS_ENTRY_INTR_INFO
           = ((rvmcs s VMCS_IDT_VECTORING_INFO AND NOT (push_bit 12 1)) AND NOT VMCS_INTR_T_MASK)
             OR VMCS_INTR_T_SWEXCEPTION
    \<and> rvmcs (hvf_inject_interrupts line s) VMCS_ENTRY_INTR_INFO AND VMCS_INTR_T_MASK
           = VMCS_INTR_T_SWEXCEPTION
    \<and> rvmcs (hvf_inject_interrupts line s) VMCS_ENTRY_INST_LENGTH
           = rvmcs s VMCS_EXIT_INSTRUCTION_LENGTH"
proof -
  note r = reinjection_bp_of [OF assms]
  have q: "fst (snd (inject_reinjection s)) AND VMCS_INTR_VALID \<noteq> 0"
    using valid_kept_retyped [OF assms(1)] r by simp
  show ?thesis
    using r by (simp add: cycle_queued [OF q] cycle_frame swexception_type)
qed

lemma bp_of_vector_not_nmi:
  assumes "ucast (x AND 0xff) = EXCEPTION_BP \<or> ucast (x AND 0xff) = EXCEPTION_OF"
    and "x AND VMCS_INTR_T_MASK = VMCS_INTR_T_NMI \<longrightarrow> x AND 0xff = NMI_VEC"
  shows "x AND VMCS_INTR_T_MASK \<noteq> VMCS_INTR_T_NMI"
proof
  assume "x AND VMCS_INTR_T_MASK = VMCS_INTR_T_NMI"
  with assms(2) have "x AND 0xff = NMI_VEC" by simp
  with assms(1) show False
    by (simp add: NMI_VEC_def EXCEPTION_BP_def EXCEPTION_OF_def)
qed

text \<open>
  Claim C6. For every injector cycle whose valid vectoring info carries the breakpoint
  or the overflow vector, whatever the event type of that info, the entry-injection
  field holds the vectoring info with bit 12 cleared and its type field replaced by
  software exception, and the entry instruction-length field equals the instruction
  length recorded at the exit. The vectoring info is what the hardware reports: info of
  NMI type carries the NMI vector, \<open>NMI_VEC\<close>.
\<close>

theorem bp_of_reinjected_as_software_exception:
  assumes "rvmcs s VMCS_IDT_VECTORING_INFO AND VMCS_IDT_VEC_VALID \<noteq> 0"
    and "ucast (rvmcs s VMCS_IDT_VECTORING_INFO AND 0xff) = EXCEPTION_BP
         \<or> ucast (rvmcs s VMCS_IDT_VECTORING_INFO AND 0xff) = EXCEPTION_OF"
    and "rvmcs s VMCS_IDT_VECTORING_INFO AND VMCS_INTR_T_MASK = VMCS_INTR_T_NMI
         \<longrightarrow> rvmcs s VMCS_IDT_VECTORING_INFO AND 0xff = NMI_VEC"
  shows "rvmcs (hvf_inject_interrupts line s) VMCS_ENTRY_INTR_INFO
           = ((rvmcs s VMCS_IDT_VECTORING_INFO AND NOT (push_bit 12 1)) AND NOT VMCS_INTR_T_MASK)
             OR VMCS_INTR_T_SWEXCEPTION
    \<and> rvmcs (hvf_inject_interrupts line s) VMCS_ENTRY_INTR_INFO AND VMCS_INTR_T_MASK
           = VMCS_INTR_T_SWEXCEPTION
    \<and> rvmcs (hvf_inject_interrupts line s) VMCS_ENTRY_INST_LENGTH
           = rvmcs s VMCS_EXIT_INSTRUCTION_LENGTH"
proof -
  have "rvmcs s VMCS_IDT_VECTORING_INFO AND VMCS_INTR_T_MASK \<noteq> VMCS_INTR_T_NMI"
    using assms(2,3) by (rule bp_of_vector_not_nmi)
  then have g: "rvmcs s VMCS_IDT_VECTORING_INFO AND VMCS_INTR_T_MASK \<noteq> VMCS_INTR_T_NMI
         \<or> rvmcs s VMCS_GUEST_INTERRUPTIBILITY AND VMCS_INTERRUPTIBILITY_NMI_BLOCKING = 0
         \<or> rvmcs s VMCS_EXIT_REASON \<noteq> EXIT_REASON_TASK_SWITCH"
    by simp
  show ?thesis
    using assms(1,2) g by (rule bp_of_reinjected_under_guard)
qed

theorem bp_of_reinjected_as_software_exception_witness:
  "rvmcs (hvf_inject_interrupts 0
        (wvmcs (wvmcs zero_cpu VMCS_IDT_VECTORING_INFO 0x80000303) VMCS_EXIT_INSTRUCTION_LENGTH 1))
        VMCS_ENTRY_INTR_INFO = 0x80000603
   \<and> rvmcs (hvf_inject_interrupts 0
        (wvmcs (wvmcs zero_cpu VMCS_IDT_VECTORING_INFO 0x80000303) VMCS_EXIT_INSTRUCTION_LENGTH 1))
        VMCS_ENTRY_INST_LENGTH = 1"
proof -
  let ?s = "wvmcs (wvmcs zero_cpu VMCS_IDT_VECTORING_INFO 0x80000303) VMCS_EXIT_INSTRUCTION_LENGTH 1"
  have h: "rvmcs ?s VMCS_IDT_VECTORING_INFO AND VMCS_IDT_VEC_VALID \<noteq> 0"
    "ucast (rvmcs ?s VMCS_IDT_VECTORING_INFO AND 0xff) = EXCEPTION_BP
         \<or> ucast (rvmcs ?s VMCS_IDT_VECTORING_INFO AND 0xff) = EXCEPTION_OF"
    "rvmcs ?s VMCS_IDT_VECTORING_INFO AND VMCS_INTR_T_MASK = VMCS_INTR_T_NMI
         \<longrightarrow> rvmcs ?s VMCS_IDT_VECTORING_INFO AND 0xff = NMI_VEC"
    by (simp_all add: zero_cpu_def zero_vcpu_def rvmcs_def wvmcs_def VMCS_IDT_VEC_VALID_def
        VMCS_INTR_T_MASK_def VMCS_INTR_T_NMI_def EXCEPTION_BP_def)
  show ?thesis
    using bp_of_reinjected_as_software_exception [OF h, of 0]
    by (simp add: VMCS_INTR_T_MASK_def VMCS_INTR_T_SWEXCEPTION_def)
qed




section \<open>Properties of the segment translation\<close>

lemmas DESC_SHIFT_defs =
  DESC_TYPE_SHIFT_def DESC_S_SHIFT_def DESC_DPL_SHIFT_def DESC_P_SHIFT_def
  DESC_AVL_SHIFT_def DESC_L_SHIFT_def DESC_B_SHIFT_def DESC_G_SHIFT_def


lemma and1_bit: "bit (w AND (1::'a::len word)) n \<longleftrightarrow> n = 0 \<and> bit w 0"
  by (auto simp: bit_simps bit_1_iff)

lemma and3_bit: "bit (w AND (3::'a::len word)) n \<longleftrightarrow> n < 2 \<and> bit w n"
proof -
  have "w AND 3 = w AND mask 2" by (simp add: mask_eq_exp_minus_1)
  then have "bit (w AND 3) n = bit (w AND mask 2) n" by simp
  also have "\<dots> \<longleftrightarrow> n < 2 \<and> bit w n"
    by (auto simp: bit_and_iff bit_mask_iff dest: bit_imp_le_length)
  finally show ?thesis .
qed

lemma and15_bit: "bit (w AND (0xf::'a::len word)) n \<longleftrightarrow> n < 4 \<and> bit w n"
proof -
  have "w AND 0xf = w AND mask 4" by (simp add: mask_eq_exp_minus_1)
  then have "bit (w AND 0xf) n = bit (w AND mask 4) n" by simp
  also have "\<dots> \<longleftrightarrow> n < 4 \<and> bit w n"
    by (auto simp: bit_and_iff bit_mask_iff dest: bit_imp_le_length)
  finally show ?thesis .
qed

lemma bit_field1:
  "bit (push_bit k (drop_bit j w AND (1::'a::len word))) n \<longleftrightarrow> n = k \<and> k < LENGTH('a) \<and> bit w j"
  by (auto simp only: bit_push_bit_iff and1_bit bit_drop_bit_eq o_apply possible_bit_word add_0_right
      dest: bit_imp_le_length)

lemma bit_field2:
  "bit (push_bit k (drop_bit j w AND (3::'a::len word))) n \<longleftrightarrow>
     n < LENGTH('a) \<and> (n = k \<and> bit w j \<or> n = Suc k \<and> bit w (Suc j))"
proof -
  have "bit (push_bit k (drop_bit j w AND (3::'a word))) n \<longleftrightarrow>
     k \<le> n \<and> n < LENGTH('a) \<and> n - k < 2 \<and> bit w (j + (n - k))"
    by (simp only: bit_push_bit_iff and3_bit bit_drop_bit_eq o_apply possible_bit_word)
  also have "\<dots> \<longleftrightarrow> n < LENGTH('a) \<and> (n = k \<and> bit w j \<or> n = Suc k \<and> bit w (Suc j))"
  proof (cases "k \<le> n")
    case True
    then obtain d where d: "n = k + d" using le_Suc_ex by blast
    have "d < 2 \<longleftrightarrow> d = 0 \<or> d = 1" by arith
    with d show ?thesis by auto
  next
    case False
    then show ?thesis by auto
  qed
  finally show ?thesis .
qed

lemma bit_field4:
  "bit (push_bit k (w AND (0xf::'a::len word))) n \<longleftrightarrow>
     k \<le> n \<and> n < k + 4 \<and> n < LENGTH('a) \<and> bit w (n - k)"
  by (auto simp only: bit_push_bit_iff and15_bit possible_bit_word)

lemma bit_field4d:
  "bit (drop_bit j w AND (0xf::'a::len word)) n \<longleftrightarrow> n < 4 \<and> bit w (j + n)"
  by (simp only: and15_bit bit_drop_bit_eq o_apply)

lemma bit_pack_ar:
  "bit (pack_ar f) n \<longleftrightarrow>
     (n < 4 \<and> bit f (8 + n)) \<or> (n = 4 \<and> bit f 12) \<or> (n = 5 \<and> bit f 13) \<or> (n = 6 \<and> bit f 14)
     \<or> (n = 7 \<and> bit f 15) \<or> (n = 12 \<and> bit f 20) \<or> (n = 13 \<and> bit f 21)
     \<or> (n = 14 \<and> bit f 22) \<or> (n = 15 \<and> bit f 23)"
  unfolding pack_ar_def DESC_SHIFT_defs
  apply (simp only: bit_ucast_iff bit_or_iff bit_field1 bit_field2 bit_field4d)
  apply auto
  done



lemma bit_unpack_flags:
  "bit (unpack_flags a) n \<longleftrightarrow>
     (8 \<le> n \<and> n < 12 \<and> bit a (n - 8)) \<or> (n = 12 \<and> bit a 4) \<or> (n = 13 \<and> bit a 5)
     \<or> (n = 14 \<and> bit a 6) \<or> (n = 15 \<and> bit a 7) \<or> (n = 20 \<and> bit a 12)
     \<or> (n = 21 \<and> bit a 13) \<or> (n = 22 \<and> bit a 14) \<or> (n = 23 \<and> bit a 15)"
  unfolding unpack_flags_def DESC_SHIFT_defs
  apply (simp only: bit_ucast_iff bit_or_iff bit_field1 bit_field2 bit_field4)
  apply (cases "n < 64"; simp)
  apply (safe; simp)
  done

lemma bit_desc_mask:
  "bit (0x00F0FF00 :: u32) n \<longleftrightarrow> (8 \<le> n \<and> n < 16) \<or> (20 \<le> n \<and> n < 24)"
proof -
  have "(0x00F0FF00 :: u32) = push_bit 8 (mask 8) OR push_bit 20 (mask 4)"
    by (simp add: mask_eq_exp_minus_1)
  then have "bit (0x00F0FF00 :: u32) n = bit (push_bit 8 (mask 8) OR push_bit 20 (mask 4) :: u32) n"
    by simp
  also have "\<dots> \<longleftrightarrow> (8 \<le> n \<and> n < 16) \<or> (20 \<le> n \<and> n < 24)"
    by (auto simp: bit_or_iff bit_push_bit_iff bit_mask_iff)
  finally show ?thesis .
qed

lemma sel_trunc: "(ucast (ucast (s::u32) :: u16) :: u32) = s AND 0xFFFF"
proof -
  have "(ucast (ucast s :: u16) :: u32) = s AND mask 16"
    by (rule bit_word_eqI) (auto simp: bit_simps)
  then show ?thesis by (simp add: mask_eq_exp_minus_1)
qed

lemma limit_widen: "(ucast (ucast (l::u32) :: u64) :: u32) = l"
  by (rule bit_word_eqI) (auto simp: bit_simps)


lemma pack_low: "k < 4 \<Longrightarrow> bit (pack_ar f) k = bit f (8 + k)"
  by (simp add: bit_pack_ar)

lemma unpack_pack: "unpack_flags (pack_ar f) = f AND 0x00F0FF00"
proof (rule bit_word_eqI)
  fix n assume "n < LENGTH(32)"
  have low: "bit (pack_ar f) (n - 8) = bit f n" if "8 \<le> n" "n < 12"
  proof -
    from that have "n - 8 < 4" "8 + (n - 8) = n" by arith+
    then show ?thesis using pack_low [of "n - 8" f] by simp
  qed
  have others: "bit (pack_ar f) 4 = bit f 12" "bit (pack_ar f) 5 = bit f 13"
    "bit (pack_ar f) 6 = bit f 14" "bit (pack_ar f) 7 = bit f 15" "bit (pack_ar f) 12 = bit f 20"
    "bit (pack_ar f) 13 = bit f 21" "bit (pack_ar f) 14 = bit f 22" "bit (pack_ar f) 15 = bit f 23"
    by (simp_all add: bit_pack_ar)
  have "bit (unpack_flags (pack_ar f)) n \<longleftrightarrow> bit f n \<and> ((8 \<le> n \<and> n < 16) \<or> (20 \<le> n \<and> n < 24))"
  proof (cases "8 \<le> n \<and> n < 12")
    case True
    then show ?thesis by (simp add: bit_unpack_flags low)
  next
    case False
    have "bit (unpack_flags (pack_ar f)) n \<longleftrightarrow>
      (n = 12 \<or> n = 13 \<or> n = 14 \<or> n = 15 \<or> n = 20 \<or> n = 21 \<or> n = 22 \<or> n = 23) \<and> bit f n"
      using False by (simp only: bit_unpack_flags others) blast
    moreover have "(n = 12 \<or> n = 13 \<or> n = 14 \<or> n = 15 \<or> n = 20 \<or> n = 21 \<or> n = 22 \<or> n = 23)
       \<longleftrightarrow> ((8 \<le> n \<and> n < 16) \<or> (20 \<le> n \<and> n < 24))"
      using False by arith
    ultimately show ?thesis by blast
  qed
  then show "bit (unpack_flags (pack_ar f)) n = bit (f AND 0x00F0FF00) n"
    by (simp only: bit_and_iff bit_desc_mask)
qed


lemma bit_pack_ar_field: "bit (pack_ar f) n = ar_field_bit f n"
  by (simp only: bit_pack_ar ar_field_bit_def)

lemma ar_field_no_bit16: "\<not> ar_field_bit f 16"
  by (simp add: ar_field_bit_def)

lemma reset_ar: "(push_bit 16 1 :: u64) = 0x10000"
  by simp

text \<open>
  Claim C7. \<open>hvf_set_segment\<close> takes the early return exactly when the selector is
  zero, the processor is not in real mode and the segment is not the task register: bit
  16 of the resulting access rights is set in that case and in no other. Selector, base
  and limit are copied on both paths. On the early return the access rights are the
  fixed value with bit 16 alone set, whatever the flags. On the other path, which a task
  register with a zero selector takes, each bit of the access rights is the bit of the
  flags that the packing table gives.
\<close>

theorem hvf_set_segment_special_path:
  "(bit (ar (hvf_set_segment is_real qseg is_tr)) 16 \<longleftrightarrow>
       selector qseg = 0 \<and> \<not> is_real \<and> \<not> is_tr)
   \<and> sel (hvf_set_segment is_real qseg is_tr) = ucast (selector qseg)
   \<and> vbase (hvf_set_segment is_real qseg is_tr) = base qseg
   \<and> vlimit (hvf_set_segment is_real qseg is_tr) = ucast (limit qseg)
   \<and> (selector qseg = 0 \<and> \<not> is_real \<and> \<not> is_tr \<longrightarrow>
        ar (hvf_set_segment is_real qseg is_tr) = 0x10000)
   \<and> (\<not> (selector qseg = 0 \<and> \<not> is_real \<and> \<not> is_tr) \<longrightarrow>
        (\<forall>n. bit (ar (hvf_set_segment is_real qseg is_tr)) n = ar_field_bit (flags qseg) n))
   \<and> (\<forall>n. bit (ar (hvf_set_segment is_real (qseg\<lparr>selector := 0\<rparr>) True)) n
          = ar_field_bit (flags qseg) n)"
proof (cases "selector qseg = 0 \<and> \<not> is_real \<and> \<not> is_tr")
  case True
  then show ?thesis
    by (simp add: hvf_set_segment_def bit_pack_ar_field)
next
  case False
  then show ?thesis
    by (auto simp add: hvf_set_segment_def bit_pack_ar_field ar_field_no_bit16)
qed

theorem hvf_set_segment_special_path_witness:
  "ar (hvf_set_segment False \<lparr>selector = 0, base = 0, limit = 0xFFFF, flags = 0x8B00\<rparr> False) = 0x10000
   \<and> bit (ar (hvf_set_segment False \<lparr>selector = 0, base = 0, limit = 0xFFFF, flags = 0x8B00\<rparr> True)) 7
   \<and> \<not> bit (ar (hvf_set_segment False \<lparr>selector = 0, base = 0, limit = 0xFFFF, flags = 0x8B00\<rparr> True)) 16"
  using hvf_set_segment_special_path [of False "\<lparr>selector = 0, base = 0, limit = 0xFFFF, flags = 0x8B00\<rparr>" False]
    hvf_set_segment_special_path [of False "\<lparr>selector = 0, base = 0, limit = 0xFFFF, flags = 0x8B00\<rparr>" True]
  by (simp add: ar_field_bit_def)

text \<open>
  Claim C4, as stated, fails: a flat code segment whose flags keep the limit bits 16-19
  of the descriptor word (\<open>0x00CF9B00\<close>) has a non-zero selector and comes back with
  flags \<open>0x00C09B00\<close>.
\<close>

theorem segment_roundtrip_counterexample:
  "selector \<lparr>selector = 8, base = 0, limit = 0xFFFFF, flags = 0x00CF9B00\<rparr> \<noteq> 0
   \<and> flags (hvf_get_segment (hvf_set_segment False
         \<lparr>selector = 8, base = 0, limit = 0xFFFFF, flags = 0x00CF9B00\<rparr> False)) = 0x00C09B00
   \<and> hvf_get_segment (hvf_set_segment False
         \<lparr>selector = 8, base = 0, limit = 0xFFFFF, flags = 0x00CF9B00\<rparr> False)
       \<noteq> \<lparr>selector = 8, base = 0, limit = 0xFFFFF, flags = 0x00CF9B00\<rparr>"
  by (simp add: hvf_get_segment_def hvf_set_segment_def unpack_pack)

text \<open>
  Claim C4, amended. For every guest segment descriptor whose selector is non-zero,
  converting it to the host form and back reproduces base and limit exactly, the selector
  in its low 16 bits and the flags on the bits of the packed fields (mask
  \<open>0x00F0FF00\<close>); the other flags bits come back as zero. The round trip is exact when
  the selector fits in 16 bits and the flags have no bit outside the packed fields.
\<close>

theorem segment_roundtrip_masked:
  "selector qseg \<noteq> 0 \<Longrightarrow>
     hvf_get_segment (hvf_set_segment is_real qseg is_tr)
       = qseg\<lparr>selector := selector qseg AND 0xFFFF, flags := flags qseg AND 0x00F0FF00\<rparr>
     \<and> (selector qseg AND 0xFFFF = selector qseg \<and> flags qseg AND 0x00F0FF00 = flags qseg
          \<longrightarrow> hvf_get_segment (hvf_set_segment is_real qseg is_tr) = qseg)"
  by (simp add: hvf_get_segment_def hvf_set_segment_def unpack_pack sel_trunc limit_widen)

theorem segment_roundtrip_masked_witness:
  "selector \<lparr>selector = 8, base = 0x1000, limit = 0xFFFFF, flags = 0x00C09B00\<rparr> \<noteq> 0
   \<and> hvf_get_segment (hvf_set_segment False
         \<lparr>selector = 8, base = 0x1000, limit = 0xFFFFF, flags = 0x00C09B00\<rparr> False)
       = \<lparr>selector = 8, base = 0x1000, limit = 0xFFFFF, flags = 0x00C09B00\<rparr>"
  using segment_roundtrip_masked [of "\<lparr>selector = 8, base = 0x1000, limit = 0xFFFFF, flags = 0x00C09B00\<rparr>" False False]
  by simp

section \<open>Properties of the state synchronization\<close>


lemma memcpy_to_below: "i < off \<Longrightarrow> memcpy_to d off xs i = d i"
  by (induction xs arbitrary: d off) auto

lemma fold_tags_word0:
  "fold (\<lambda>x d. d(Suc 0 := d (Suc 0) OR g x)) xs d 0 = (d 0 :: u32)"
  by (induction xs arbitrary: d) auto

lemma xsave_pack_word0:
  "xsave_pack e 0 = ucast (fpuc e) OR push_bit 16 (ucast (fpus e)) OR push_bit 11 (fpstt e AND 7)"
  by (simp add: xsave_pack_def Let_def memcpy_to_below fold_tags_word0 or.assoc
      del: fold_simps upt_rec_numeral)

lemma fold_fptags_frame:
  "fpuc (fold (\<lambda>x e. e\<lparr>fptags := g x e\<rparr>) xs e) = fpuc e"
  "fpus (fold (\<lambda>x e. e\<lparr>fptags := g x e\<rparr>) xs e) = fpus e"
  "fpstt (fold (\<lambda>x e. e\<lparr>fptags := g x e\<rparr>) xs e) = fpstt e"
  "fpop (fold (\<lambda>x e. e\<lparr>fptags := g x e\<rparr>) xs e) = fpop e"
  by (induction xs arbitrary: e) auto

lemma xsave_unpack_words:
  "fpuc (xsave_unpack d e) = ucast (d 0)"
  "fpus (xsave_unpack d e) = ucast (drop_bit 16 (d 0))"
  "fpstt (xsave_unpack d e) = ucast (drop_bit 11 (ucast (drop_bit 16 (d 0)) :: u16)) AND 7"
  "fpop (xsave_unpack d e) = ucast (drop_bit 16 (d 1))"
  by (simp_all add: xsave_unpack_def Let_def fold_fptags_frame del: fold_simps upt_rec_numeral)

lemma put_get_xsave:
  "hv Hv_vcpu_write_fpstate = 0 \<Longrightarrow> hv Hv_vcpu_read_fpstate = 0 \<Longrightarrow>
   Option.bind (hvf_put_xsave hv s) (hvf_get_xsave hv) =
     Some (s\<lparr>hvf_fd := (hvf_fd s)\<lparr>hv_fpstate := xsave_pack (env s)\<rparr>,
              env := xsave_unpack (xsave_pack (env s))
                       ((env s)\<lparr>kvm_xsave_buf := xsave_pack (env s)\<rparr>)\<rparr>)"
  by (simp add: hvf_put_xsave_def hvf_get_xsave_def hv_vcpu_write_fpstate_def
      hv_vcpu_read_fpstate_def Let_def)


text \<open>
  What packing and unpacking does to the three fields of word 0, for any guest state:
  the status word comes back, the control word comes back with the top of stack ORed
  into its bits 11-13, and the top of stack comes back as bits 11-13 of the status word.
\<close>

lemma and7_bit: "bit (w AND (7::'a::len word)) n \<longleftrightarrow> n < 3 \<and> bit w n"
proof -
  have "w AND 7 = w AND mask 3" by (simp add: mask_eq_exp_minus_1)
  then have "bit (w AND 7) n = bit (w AND mask 3) n" by simp
  also have "\<dots> \<longleftrightarrow> n < 3 \<and> bit w n"
    by (auto simp: bit_and_iff bit_mask_iff dest: bit_imp_le_length)
  finally show ?thesis .
qed

lemma top_field_bit:
  "bit (push_bit 11 ((t::u32) AND 7)) n \<longleftrightarrow> 11 \<le> n \<and> n < 14 \<and> bit t (n - 11)"
proof -
  have "bit (push_bit 11 (t AND 7)) n \<longleftrightarrow> 11 \<le> n \<and> n < 32 \<and> n - 11 < 3 \<and> bit t (n - 11)"
    by (simp only: bit_push_bit_iff and7_bit possible_bit_word) simp
  also have "\<dots> \<longleftrightarrow> 11 \<le> n \<and> n < 14 \<and> bit t (n - 11)"
    by auto
  finally show ?thesis .
qed

lemma word0_bit:
  "bit (ucast (c::u16) OR push_bit 16 (ucast (s::u16)) OR push_bit 11 ((t::u32) AND 7)) n \<longleftrightarrow>
     (n < 16 \<and> bit c n) \<or> (16 \<le> n \<and> n < 32 \<and> bit s (n - 16))
     \<or> (11 \<le> n \<and> n < 14 \<and> bit t (n - 11))"
proof -
  have c: "bit (ucast c :: u32) n \<longleftrightarrow> n < 16 \<and> bit c n"
    by (auto simp add: bit_ucast_iff dest: bit_imp_le_length)
  have s: "bit (push_bit 16 (ucast s :: u32)) n \<longleftrightarrow> 16 \<le> n \<and> n < 32 \<and> bit s (n - 16)"
    by (auto simp add: bit_push_bit_iff bit_ucast_iff)
  show ?thesis
    by (simp only: bit_or_iff top_field_bit c s)
qed

lemma word0_status:
  "(ucast (drop_bit 16 (ucast (c::u16) OR push_bit 16 (ucast (s::u16)) OR push_bit 11 ((t::u32) AND 7))) :: u16) = s"
proof (rule bit_word_eqI)
  fix n assume "n < LENGTH(16)"
  then have n: "n < 16" by simp
  have "bit (ucast (drop_bit 16 (ucast c OR push_bit 16 (ucast s) OR push_bit 11 (t AND 7))) :: u16) n
    \<longleftrightarrow> bit (ucast c OR push_bit 16 (ucast s) OR push_bit 11 (t AND 7)) (16 + n)"
    using n by (simp only: bit_ucast_iff bit_drop_bit_eq o_apply) simp
  also have "\<dots> \<longleftrightarrow> bit s n"
    using n by (simp only: word0_bit) simp
  finally show "bit (ucast (drop_bit 16 (ucast c OR push_bit 16 (ucast s) OR push_bit 11 (t AND 7))) :: u16) n
    = bit s n" .
qed

lemma word0_control:
  "(ucast (ucast (c::u16) OR push_bit 16 (ucast (s::u16)) OR push_bit 11 ((t::u32) AND 7)) :: u16)
     = c OR push_bit 11 (ucast (t AND 7))"
proof (rule bit_word_eqI)
  fix n assume "n < LENGTH(16)"
  then have n: "n < 16" by simp
  have "bit (ucast (ucast c OR push_bit 16 (ucast s) OR push_bit 11 (t AND 7)) :: u16) n
    \<longleftrightarrow> bit (ucast c OR push_bit 16 (ucast s) OR push_bit 11 (t AND 7)) n"
    using n by (simp only: bit_ucast_iff) simp
  also have "\<dots> \<longleftrightarrow> bit c n \<or> (11 \<le> n \<and> n < 14 \<and> bit t (n - 11))"
    using n by (simp only: word0_bit) simp
  also have "\<dots> \<longleftrightarrow> bit (c OR push_bit 11 (ucast (t AND 7))) n"
    using n by (auto simp only: bit_or_iff bit_push_bit_iff bit_ucast_iff and7_bit
        possible_bit_word len_of_numeral_defs; simp)
  finally show "bit (ucast (ucast c OR push_bit 16 (ucast s) OR push_bit 11 (t AND 7)) :: u16) n
    = bit (c OR push_bit 11 (ucast (t AND 7))) n" .
qed

lemma xsave_roundtrip_word0:
  "fpus (xsave_unpack (xsave_pack e) e') = fpus e"
  "fpuc (xsave_unpack (xsave_pack e) e') = fpuc e OR push_bit 11 (ucast (fpstt e AND 7))"
  "fpstt (xsave_unpack (xsave_pack e) e') = ucast (drop_bit 11 (fpus e)) AND 7"
  by (simp_all only: xsave_unpack_words xsave_pack_word0 word0_status word0_control)

text \<open>
  Claim C1 at a guest state with control word \<open>0x037F\<close>, status word 0 and top of
  stack 7. Line 96 puts the top of stack into bits 11-13 of word 0 of the buffer, which
  are bits of the control word, while line 209 reads it from bits 11-13 of the status
  word, the high half of word 0. Packing and unpacking this state, through the host or
  on the buffer alone, gives control word \<open>0x3B7F\<close> and top of stack 0; the status
  word comes back as 0.
\<close>

theorem xsave_roundtrip_loses_fpuc_fpstt:
  "map_option (\<lambda>s. (fpuc (env s), fpus (env s), fpstt (env s)))
     (Option.bind (hvf_put_xsave hv_success (zero_cpu\<lparr>env := zero_env\<lparr>fpuc := 0x037F, fpstt := 7\<rparr>\<rparr>))
        (hvf_get_xsave hv_success))
   = Some (0x3B7F, 0, 0)
   \<and> fpuc (xsave_unpack (xsave_pack (zero_env\<lparr>fpuc := 0x037F, fpstt := 7\<rparr>))
            (zero_env\<lparr>fpuc := 0x037F, fpstt := 7\<rparr>)) = 0x3B7F
   \<and> fpstt (xsave_unpack (xsave_pack (zero_env\<lparr>fpuc := 0x037F, fpstt := 7\<rparr>))
            (zero_env\<lparr>fpuc := 0x037F, fpstt := 7\<rparr>)) = 0"
  by (simp add: put_get_xsave hv_success_def xsave_unpack_words xsave_pack_word0 zero_cpu_def
      zero_env_def)

lemma put_registers_returns:
  "hv Hv_vcpu_write_fpstate = 0 \<Longrightarrow> map_option fst (hvf_put_registers H hv s) = Some 0"
  by (simp add: hvf_put_registers_def hvf_put_xsave_def hv_vcpu_write_fpstate_def Let_def)

lemma put_registers_aborts:
  "hv Hv_vcpu_write_fpstate \<noteq> 0 \<Longrightarrow> hvf_put_registers H hv s = None"
  by (simp add: hvf_put_registers_def hvf_put_xsave_def hv_vcpu_write_fpstate_def Let_def)

text \<open>
  Claim C9 at a host on which the write of the STAR register fails and every other call
  succeeds, for a guest with \<open>star = 5\<close>: the call returns a non-zero status, the host's
  STAR stays 0, and \<open>hvf_put_registers\<close> neither aborts nor reports it: it returns 0.
\<close>

theorem put_registers_ignores_msr_failure:
  "fst (hv_vcpu_write_msr hv_star_write_fails (zero_cpu\<lparr>env := zero_env\<lparr>star := 5\<rparr>\<rparr>) MSR_STAR 5) \<noteq> 0
   \<and> hv_msr (hvf_fd (hvf_put_msrs hv_star_write_fails (zero_cpu\<lparr>env := zero_env\<lparr>star := 5\<rparr>\<rparr>)))
         MSR_STAR = 0
   \<and> map_option fst
         (hvf_put_registers idle_helpers hv_star_write_fails (zero_cpu\<lparr>env := zero_env\<lparr>star := 5\<rparr>\<rparr>))
       = Some 0"
proof -
  have a: "fst (hv_vcpu_write_msr hv_star_write_fails (zero_cpu\<lparr>env := zero_env\<lparr>star := 5\<rparr>\<rparr>) MSR_STAR 5) \<noteq> 0"
    by (simp add: hv_vcpu_write_msr_def hv_star_write_fails_def)
  have b: "hv_msr (hvf_fd (hvf_put_msrs hv_star_write_fails (zero_cpu\<lparr>env := zero_env\<lparr>star := 5\<rparr>\<rparr>)))
         MSR_STAR = 0"
    by (simp add: hvf_put_msrs_def hv_vcpu_write_msr_def hv_vm_sync_tsc_def
        hv_star_write_fails_def zero_cpu_def zero_vcpu_def Let_def)
  have c: "map_option fst
         (hvf_put_registers idle_helpers hv_star_write_fails (zero_cpu\<lparr>env := zero_env\<lparr>star := 5\<rparr>\<rparr>))
       = Some 0"
    by (rule put_registers_returns) (simp add: hv_star_write_fails_def)
  from a b c show ?thesis by blast
qed



lemma rvmcs_wvmcs_other: "rvmcs (wvmcs s f v) g = (if g = f then v else rvmcs s g)"
  by (simp add: rvmcs_def wvmcs_def)

lemma rvmcs_flush: "rvmcs (snd (hv_vcpu_flush hv s)) f = rvmcs s f"
  by (simp add: hv_vcpu_flush_def)

lemma put_segment_cr2:
  assumes "\<forall>g r t. rvmcs (vmx_write_segment_descriptor H g r t) VMCS_GUEST_CR2
            = rvmcs t VMCS_GUEST_CR2"
  shows "rvmcs (put_segment H q is_tr r s) VMCS_GUEST_CR2 = rvmcs s VMCS_GUEST_CR2"
  using assms by (simp add: put_segment_def)

lemma get_msrs_frame:
  "cr (env (hvf_get_msrs H hv s)) = cr (env s)"
  "interrupt_injected (env (hvf_get_msrs H hv s)) = interrupt_injected (env s)"
  by (simp_all add: hvf_get_msrs_def Let_def)

lemma get_debug_frame:
  "cr (env (get_debug_registers s)) = cr (env s)"
  "interrupt_injected (env (get_debug_registers s)) = interrupt_injected (env s)"
  by (simp_all add: get_debug_registers_def Let_def)

lemma get_segments_cr2:
  "cr (env (hvf_get_segments H s)) 2 = 0"
  "interrupt_injected (env (hvf_get_segments H s)) = - 1"
  by (simp_all add: hvf_get_segments_def Let_def)

text \<open>
  Claim C10. \<open>hvf_get_segments\<close> sets the guest's CR2 to 0 and \<open>interrupt_injected\<close> to
  -1 whatever the host and the guest hold, and so does every \<open>hvf_get_registers\<close> that
  returns (it aborts only when the read of the extended state fails).
  \<open>hvf_put_segments\<close> leaves the CR2 field of the host as it was, provided that the
  helpers it calls, which are not among the sources, do not write that field.
\<close>

theorem cr2_not_synchronized:
  assumes "\<forall>t. rvmcs (vmx_update_tpr H t) VMCS_GUEST_CR2 = rvmcs t VMCS_GUEST_CR2"
    and "\<forall>v t. rvmcs (macvm_set_cr4 H v t) VMCS_GUEST_CR2 = rvmcs t VMCS_GUEST_CR2"
    and "\<forall>v t. rvmcs (macvm_set_cr0 H v t) VMCS_GUEST_CR2 = rvmcs t VMCS_GUEST_CR2"
    and "\<forall>g r t. rvmcs (vmx_write_segment_descriptor H g r t) VMCS_GUEST_CR2
            = rvmcs t VMCS_GUEST_CR2"
  shows "cr (env (hvf_get_segments H s)) 2 = 0
    \<and> interrupt_injected (env (hvf_get_segments H s)) = - 1
    \<and> (case hvf_get_registers H hv s of
          None \<Rightarrow> hv Hv_vcpu_read_fpstate \<noteq> 0
        | Some (r, s') \<Rightarrow> cr (env s') 2 = 0 \<and> interrupt_injected (env s') = - 1)
    \<and> rvmcs (hvf_put_segments H hv s) VMCS_GUEST_CR2 = rvmcs s VMCS_GUEST_CR2"
proof -
  have put: "rvmcs (hvf_put_segments H hv s) VMCS_GUEST_CR2 = rvmcs s VMCS_GUEST_CR2"
    using assms(1-3)
    by (simp add: hvf_put_segments_def Let_def rvmcs_flush put_segment_cr2 [OF assms(4)]
        rvmcs_wvmcs_other)
  have get: "case hvf_get_registers H hv s of
          None \<Rightarrow> hv Hv_vcpu_read_fpstate \<noteq> 0
        | Some (r, s') \<Rightarrow> cr (env s') 2 = 0 \<and> interrupt_injected (env s') = - 1"
    by (simp add: hvf_get_registers_def hvf_get_xsave_def hv_vcpu_read_fpstate_def Let_def
        get_debug_frame get_msrs_frame get_segments_cr2)
  from put get show ?thesis by (simp add: get_segments_cr2)
qed

theorem cr2_not_synchronized_witness:
  "cr (env (hvf_get_segments idle_helpers
        (wvmcs (zero_cpu\<lparr>env := zero_env\<lparr>cr := (\<lambda>_. 0)(2 := 0x1000)\<rparr>\<rparr>) VMCS_GUEST_CR2 0x2000))) 2 = 0
   \<and> rvmcs (hvf_put_segments idle_helpers hv_success
        (wvmcs (zero_cpu\<lparr>env := zero_env\<lparr>cr := (\<lambda>_. 0)(2 := 0x1000)\<rparr>\<rparr>) VMCS_GUEST_CR2 0x2000))
        VMCS_GUEST_CR2 = 0x2000"
proof -
  have h: "\<forall>t. rvmcs (vmx_update_tpr idle_helpers t) VMCS_GUEST_CR2 = rvmcs t VMCS_GUEST_CR2"
    "\<forall>v t. rvmcs (macvm_set_cr4 idle_helpers v t) VMCS_GUEST_CR2 = rvmcs t VMCS_GUEST_CR2"
    "\<forall>v t. rvmcs (macvm_set_cr0 idle_helpers v t) VMCS_GUEST_CR2 = rvmcs t VMCS_GUEST_CR2"
    "\<forall>g r t. rvmcs (vmx_write_segment_descriptor idle_helpers g r t) VMCS_GUEST_CR2
            = rvmcs t VMCS_GUEST_CR2"
    by (simp_all add: idle_helpers_def)
  show ?thesis
    using cr2_not_synchronized [OF h, of "wvmcs (zero_cpu\<lparr>env := zero_env\<lparr>cr := (\<lambda>_. 0)(2 := 0x1000)\<rparr>\<rparr>) VMCS_GUEST_CR2 0x2000" hv_success]
    by (simp add: rvmcs_wvmcs_other)
qed


end
